theory Spec2Isabelle
  imports Complex_Main "HOL-Library.AList"
begin

section \<open>Configuration values and Python's dictionary operations\<close>

text \<open>
  The source is the configuration layer of the solenoid switch
  (\<^verbatim>\<open>components/solenoid/switch/__init__.py\<close>): a validation schema, two validators
  over the whole configuration, and the code generator \<^verbatim>\<open>to_code\<close>.

  A configuration is a Python dictionary from option names to values. A value of the
  model is the value that the configuration text denotes: a boolean, an integer, a
  fraction, a text, a percentage such as \<^verbatim>\<open>"95%"\<close> (\<open>VPercent 95\<close>), a time period
  such as \<^verbatim>\<open>"0ms"\<close> (\<open>VTime 0\<close>, in milliseconds), a list, and, once validated, an
  identifier of a given C++ type or a member of an enumeration. Python's floats are
  modelled by the reals they stand for.
\<close>

datatype cpp_type = SolenoidSwitch | FloatOutput | BinaryOutput | Switch

datatype SolenoidType =
    SOLENOID_TYPE_DC_LATCHING
  | SOLENOID_TYPE_AC
  | SOLENOID_TYPE_DC

datatype val =
    VNone
  | VBool bool
  | VInt int
  | VFloat real
  | VStr string
  | VPercent real
  | VTime int
  | VList "val list"
  | VId cpp_type "string option" bool
  | VEnum string SolenoidType

type_synonym config = "(string \<times> val) list"

datatype error = Invalid string | KeyError string | TypeError string

text \<open>\<^verbatim>\<open>key in config\<close> and \<^verbatim>\<open>config[key]\<close>; the latter raises \<^verbatim>\<open>KeyError\<close> on a missing key.\<close>

definition contains :: "config \<Rightarrow> string \<Rightarrow> bool" where
  "contains config k = (map_of config k \<noteq> None)"

definition getitem :: "config \<Rightarrow> string \<Rightarrow> error + val" where
  "getitem config k = (case map_of config k of None \<Rightarrow> Inl (KeyError k) | Some v \<Rightarrow> Inr v)"

text \<open>
  Python's \<^verbatim>\<open>==\<close> on the values above: booleans are the integers 0 and 1, numbers
  compare by value, and a member of an enumeration is a text with its C++ value attached,
  so it compares as its text.
\<close>

fun num_of :: "val \<Rightarrow> real option" where
  "num_of (VBool b) = Some (if b then 1 else 0)"
| "num_of (VInt n) = Some (of_int n)"
| "num_of (VFloat r) = Some r"
| "num_of _ = None"

fun str_of :: "val \<Rightarrow> string option" where
  "str_of (VStr s) = Some s"
| "str_of (VEnum s _) = Some s"
| "str_of _ = None"

definition py_eq :: "val \<Rightarrow> val \<Rightarrow> bool" where
  "py_eq a b =
     (case (num_of a, num_of b) of
        (Some x, Some y) \<Rightarrow> x = y
      | _ \<Rightarrow> (case (str_of a, str_of b) of
                (Some s, Some t) \<Rightarrow> s = t
              | _ \<Rightarrow> a = b))"

section \<open>The option names\<close>

text \<open>
  Lines 154 to 163 of the source define ten names. The other five are imported from
  \<^verbatim>\<open>esphome.const\<close>, which is not part of the source; they are ESPHome's names for
  these options.
\<close>

abbreviation CONF_ENERGISE_DURATION_MS :: string where
  "CONF_ENERGISE_DURATION_MS \<equiv> ''energise_duration_ms''"
abbreviation CONF_ENERGISE_POWER_PERCENT :: string where
  "CONF_ENERGISE_POWER_PERCENT \<equiv> ''energise_power_percent''"
abbreviation CONF_HOLD_POWER_PERCENT :: string where
  "CONF_HOLD_POWER_PERCENT \<equiv> ''hold_power_percent''"
abbreviation CONF_SOLENOID_TYPE :: string where
  "CONF_SOLENOID_TYPE \<equiv> ''solenoid_type''"
abbreviation CONF_INTERLOCK_WAIT_TIME :: string where
  "CONF_INTERLOCK_WAIT_TIME \<equiv> ''interlock_wait_time''"
abbreviation CONF_BRAKE_IS_HIGH :: string where
  "CONF_BRAKE_IS_HIGH \<equiv> ''brake_is_high''"
abbreviation CONF_BRIDGE_ENABLE_PIN :: string where
  "CONF_BRIDGE_ENABLE_PIN \<equiv> ''h_bridge_enable_pin''"
abbreviation CONF_DC_LATCH_REDO_COUNT :: string where
  "CONF_DC_LATCH_REDO_COUNT \<equiv> ''dc_latch_redo_count''"
abbreviation CONF_DC_LATCH_REDO_INTERVAL_MS :: string where
  "CONF_DC_LATCH_REDO_INTERVAL_MS \<equiv> ''dc_latch_redo_interval_ms''"
abbreviation CONF_USING_HALF_BRIDGE :: string where
  "CONF_USING_HALF_BRIDGE \<equiv> ''using_half_bridge''"

text \<open>Modelled from the spec: the five names of \<^verbatim>\<open>esphome.const\<close>, a library that the
  source imports and that is not under the source tree.\<close>

abbreviation CONF_OUTPUT_ID :: string where
  "CONF_OUTPUT_ID \<equiv> ''output_id''"
abbreviation CONF_INTERLOCK :: string where
  "CONF_INTERLOCK \<equiv> ''interlock''"
abbreviation CONF_PIN_A :: string where
  "CONF_PIN_A \<equiv> ''pin_a''"
abbreviation CONF_PIN_B :: string where
  "CONF_PIN_B \<equiv> ''pin_b''"
abbreviation CONF_INVERTED :: string where
  "CONF_INVERTED \<equiv> ''inverted''"

definition SOLENOID_TYPE_OPTIONS :: "(string \<times> SolenoidType) list" where
  "SOLENOID_TYPE_OPTIONS =
     [(''DC_LATCHING'', SOLENOID_TYPE_DC_LATCHING),
      (''AC'', SOLENOID_TYPE_AC),
      (''DC'', SOLENOID_TYPE_DC)]"

section \<open>The two validators over the whole configuration\<close>

definition validate_dc_latching_solenoid :: "config \<Rightarrow> error + config" where
  "validate_dc_latching_solenoid config =
     (case getitem config CONF_SOLENOID_TYPE of
        Inl e \<Rightarrow> Inl e
      | Inr t \<Rightarrow>
          if py_eq t (VStr ''DC_LATCHING'') then
            (case getitem config CONF_USING_HALF_BRIDGE of
               Inl e \<Rightarrow> Inl e
             | Inr hb \<Rightarrow>
                 if py_eq hb (VBool True) then
                   Inl (Invalid ''DC Latching Solenoid can't use a half-bridge as it requires a full h-bridge in order to reverse pulse polarity.'')
                 else if \<not> contains config CONF_PIN_B then
                   Inl (Invalid (''DC Latching Solenoid requires '' @ CONF_PIN_B @ '' to be defined.''))
                 else Inr config)
          else Inr config)"

definition validate_pin_b_and_half_bridge_combo :: "config \<Rightarrow> error + config" where
  "validate_pin_b_and_half_bridge_combo config =
     (if contains config CONF_USING_HALF_BRIDGE
         \<and> (case map_of config CONF_USING_HALF_BRIDGE of Some hb \<Rightarrow> py_eq hb (VBool True) | None \<Rightarrow> False)
         \<and> contains config CONF_PIN_B then
        Inl (Invalid (''Cannot be using a half-bridge AND have '' @ CONF_PIN_B @ '' defined. Choose one or the other please.''))
      else if contains config CONF_USING_HALF_BRIDGE
         \<and> (case map_of config CONF_USING_HALF_BRIDGE of Some hb \<Rightarrow> py_eq hb (VBool False) | None \<Rightarrow> False)
         \<and> \<not> contains config CONF_PIN_B then
        Inl (Invalid (''Must be either using a half-bridge OR have '' @ CONF_PIN_B @ '' defined. Choose only one of the two please.''))
      else Inr config)"

section \<open>The validators of ESPHome that the schema names\<close>

text \<open>
  A validator of one option takes the value and returns the validated value, or raises
  \<^verbatim>\<open>Invalid\<close> with a message (\<open>Inl\<close>). \<^verbatim>\<open>cv.All\<close> runs validators one after the other,
  each on the result of the one before.
\<close>

type_synonym validator = "val \<Rightarrow> string + val"

fun cv_All :: "('a \<Rightarrow> 'e + 'a) list \<Rightarrow> 'a \<Rightarrow> 'e + 'a" where
  "cv_All [] x = Inr x"
| "cv_All (v # vs) x = (case v x of Inl e \<Rightarrow> Inl e | Inr y \<Rightarrow> cv_All vs y)"

text \<open>Modelled from the spec: \<^verbatim>\<open>cv.int_range\<close> of the library \<^verbatim>\<open>esphome.config_validation\<close>,
  which the source imports and which is not under the source tree. Section 3 of the spec
  reads \<^verbatim>\<open>int_range(min=10, max=3000)\<close> as the closed range 10 to 3000 of integers.\<close>

definition cv_int :: validator where
  "cv_int v = (case v of VInt n \<Rightarrow> Inr (VInt n) | _ \<Rightarrow> Inl ''expected integer'')"

definition cv_Range :: "int \<Rightarrow> int \<Rightarrow> validator" where
  "cv_Range lo hi v =
     (case v of
        VInt n \<Rightarrow>
          if n < lo then Inl ''value must be at least min''
          else if n > hi then Inl ''value must be at most max''
          else Inr (VInt n)
      | _ \<Rightarrow> Inl ''expected a number'')"

definition cv_int_range :: "int \<Rightarrow> int \<Rightarrow> validator" where
  "cv_int_range lo hi = cv_All [cv_int, cv_Range lo hi]"

text \<open>Modelled from the spec: \<^verbatim>\<open>cv.percentage\<close> of the same library. Section 3 of the spec
  gives the powers as 0 to 100 percent; the validated value is the fraction between 0
  and 1.\<close>

definition cv_percentage :: validator where
  "cv_percentage v =
     (case v of
        VPercent p \<Rightarrow>
          if 0 \<le> p \<and> p \<le> 100 then Inr (VFloat (p / 100)) else Inl ''percentage out of range''
      | VFloat x \<Rightarrow>
          if 0 \<le> x \<and> x \<le> 1 then Inr (VFloat x) else Inl ''percentage out of range''
      | VInt n \<Rightarrow>
          if 0 \<le> n \<and> n \<le> 1 then Inr (VFloat (of_int n)) else Inl ''percentage out of range''
      | _ \<Rightarrow> Inl ''invalid number'')"

text \<open>Modelled from the spec: \<^verbatim>\<open>cv.boolean\<close> of the same library; section 3 of the spec
  types these options as \<^verbatim>\<open>bool\<close>.\<close>

definition cv_boolean :: validator where
  "cv_boolean v = (case v of VBool b \<Rightarrow> Inr (VBool b) | _ \<Rightarrow> Inl ''expected boolean'')"

text \<open>Modelled from the spec: \<^verbatim>\<open>cv.enum\<close> of the same library. The value must be one of
  the names of the mapping; with \<^verbatim>\<open>upper=True\<close> the text is put in upper case first. The
  result is the name with the C++ value of the mapping attached.\<close>

definition upper_char :: "char \<Rightarrow> char" where
  "upper_char c =
     (case map_of (zip ''abcdefghijklmnopqrstuvwxyz'' ''ABCDEFGHIJKLMNOPQRSTUVWXYZ'') c of
        None \<Rightarrow> c
      | Some u \<Rightarrow> u)"

definition upper :: "string \<Rightarrow> string" where
  "upper s = map upper_char s"

definition cv_enum :: "(string \<times> SolenoidType) list \<Rightarrow> bool \<Rightarrow> validator" where
  "cv_enum mapping to_upper v =
     (case str_of v of
        None \<Rightarrow> Inl ''expected string''
      | Some s \<Rightarrow>
          (let s' = (if to_upper then upper s else s) in
           case map_of mapping s' of
             None \<Rightarrow> Inl ''unknown value''
           | Some e \<Rightarrow> Inr (VEnum s' e)))"

text \<open>Modelled from the spec: \<^verbatim>\<open>cv.declare_id\<close> and \<^verbatim>\<open>cv.use_id\<close> of the same library.
  The first declares an identifier of the given C++ type (a fresh one when none is
  written), the second refers to one. \<open>VId t name declared\<close> is the identifier.\<close>

definition cv_declare_id :: "cpp_type \<Rightarrow> validator" where
  "cv_declare_id t v =
     (case v of
        VNone \<Rightarrow> Inr (VId t None True)
      | VStr s \<Rightarrow> Inr (VId t (Some s) True)
      | _ \<Rightarrow> Inl ''invalid ID'')"

definition cv_use_id :: "cpp_type \<Rightarrow> validator" where
  "cv_use_id t v =
     (case v of
        VNone \<Rightarrow> Inr (VId t None False)
      | VStr s \<Rightarrow> Inr (VId t (Some s) False)
      | VId t' n d \<Rightarrow> if t' = t \<and> \<not> d then Inr (VId t' n d) else Inl ''invalid ID''
      | _ \<Rightarrow> Inl ''invalid ID'')"

text \<open>Modelled from the spec: \<^verbatim>\<open>cv.ensure_list\<close> of the same library: a single value is
  taken as the list of that value, and every member is validated.\<close>

fun validate_each :: "validator \<Rightarrow> val list \<Rightarrow> string + val list" where
  "validate_each v [] = Inr []"
| "validate_each v (x # xs) =
     (case v x of
        Inl m \<Rightarrow> Inl m
      | Inr y \<Rightarrow> (case validate_each v xs of Inl m \<Rightarrow> Inl m | Inr ys \<Rightarrow> Inr (y # ys)))"

definition cv_ensure_list :: "validator \<Rightarrow> validator" where
  "cv_ensure_list v x =
     (case x of
        VNone \<Rightarrow> Inr (VList [])
      | VList xs \<Rightarrow> (case validate_each v xs of Inl m \<Rightarrow> Inl m | Inr ys \<Rightarrow> Inr (VList ys))
      | _ \<Rightarrow> (case v x of Inl m \<Rightarrow> Inl m | Inr y \<Rightarrow> Inr (VList [y])))"

text \<open>Modelled from the spec: \<^verbatim>\<open>cv.positive_time_period_milliseconds\<close> of the same
  library; section 3 of the spec gives the wait time as a number of milliseconds that is
  at least 0.\<close>

definition cv_positive_time_period_milliseconds :: validator where
  "cv_positive_time_period_milliseconds v =
     (case v of
        VTime ms \<Rightarrow> if ms < 0 then Inl ''time period must not be negative'' else Inr (VTime ms)
      | _ \<Rightarrow> Inl ''expected time period'')"

section \<open>Schemas\<close>

text \<open>
  Modelled from the spec: the schema interpreter of the same library (\<^verbatim>\<open>cv.Required\<close>,
  \<^verbatim>\<open>cv.Optional\<close>, \<^verbatim>\<open>cv.GenerateID\<close>, \<^verbatim>\<open>extend\<close> and the call of a schema on a
  configuration). A schema is a dictionary from marked option names to validators, here
  the list of its items. A required option must be present. An optional one may be
  absent; if it has a default, the default is validated and stored. \<^verbatim>\<open>GenerateID\<close> is an
  optional name whose default is \<^verbatim>\<open>None\<close>. An option that the schema does not name is
  refused. By section 7 of the spec, a configuration that fails is not built.
\<close>

datatype marker =
    Required string
  | Optional string "val option"
  | GenerateID string

fun key_of :: "marker \<Rightarrow> string" where
  "key_of (Required k) = k"
| "key_of (Optional k d) = k"
| "key_of (GenerateID k) = k"

fun default_of :: "marker \<Rightarrow> val option" where
  "default_of (Required k) = None"
| "default_of (Optional k d) = d"
| "default_of (GenerateID k) = Some VNone"

fun is_required :: "marker \<Rightarrow> bool" where
  "is_required (Required k) = True"
| "is_required _ = False"

type_synonym schema = "(marker \<times> validator) list"

definition keys_of :: "schema \<Rightarrow> string list" where
  "keys_of s = map (\<lambda>(m, v). key_of m) s"

text \<open>\<^verbatim>\<open>a.extend(b)\<close>: the items of \<open>b\<close> replace the items of \<open>a\<close> with the same name.\<close>

definition extend :: "schema \<Rightarrow> schema \<Rightarrow> schema" where
  "extend a b = filter (\<lambda>(m, v). key_of m \<notin> set (keys_of b)) a @ b"

text \<open>The value that an item of the schema validates: the value of the configuration, or
  the default of the marker when the configuration has none.\<close>

definition input_of :: "marker \<Rightarrow> config \<Rightarrow> val option" where
  "input_of m data = (case map_of data (key_of m) of Some x \<Rightarrow> Some x | None \<Rightarrow> default_of m)"

fun validate_items :: "schema \<Rightarrow> config \<Rightarrow> string + config" where
  "validate_items [] data = Inr []"
| "validate_items ((m, v) # s) data =
     (case input_of m data of
        None \<Rightarrow>
          if is_required m then Inl (''required key not provided: '' @ key_of m)
          else validate_items s data
      | Some x \<Rightarrow>
          (case v x of
             Inl msg \<Rightarrow> Inl msg
           | Inr y \<Rightarrow>
               (case validate_items s data of
                  Inl msg \<Rightarrow> Inl msg
                | Inr out \<Rightarrow> Inr ((key_of m, y) # out))))"

definition Schema :: "schema \<Rightarrow> config \<Rightarrow> error + config" where
  "Schema s data =
     (if list_ex (\<lambda>k. k \<notin> set (keys_of s)) (map fst data) then
        Inl (Invalid ''extra keys not allowed'')
      else
        (case validate_items s data of
           Inl msg \<Rightarrow> Inl (Invalid msg)
         | Inr out \<Rightarrow> Inr out))"

section \<open>The schema of the solenoid switch\<close>

text \<open>The dictionary of lines 187 to 203 of the source.\<close>

definition solenoid_options :: schema where
  "solenoid_options =
     [(GenerateID CONF_OUTPUT_ID, cv_declare_id SolenoidSwitch),
      (Required CONF_PIN_A, cv_use_id FloatOutput),
      (Optional CONF_PIN_B None, cv_use_id BinaryOutput),
      (Optional CONF_BRIDGE_ENABLE_PIN None, cv_use_id BinaryOutput),
      (Required CONF_ENERGISE_DURATION_MS, cv_int_range 10 3000),
      (Optional CONF_DC_LATCH_REDO_COUNT (Some (VInt 3)), cv_int_range 1 5),
      (Optional CONF_DC_LATCH_REDO_INTERVAL_MS (Some (VInt 500)), cv_int_range 500 3000),
      (Optional CONF_ENERGISE_POWER_PERCENT (Some (VPercent 95)), cv_percentage),
      (Optional CONF_HOLD_POWER_PERCENT (Some (VPercent 55)), cv_percentage),
      (Required CONF_SOLENOID_TYPE, cv_enum SOLENOID_TYPE_OPTIONS True),
      (Required CONF_BRAKE_IS_HIGH, cv_boolean),
      (Optional CONF_INVERTED (Some (VBool False)), cv_boolean),
      (Optional CONF_USING_HALF_BRIDGE (Some (VBool False)), cv_boolean),
      (Optional CONF_INTERLOCK None, cv_ensure_list (cv_use_id Switch)),
      (Optional CONF_INTERLOCK_WAIT_TIME (Some (VTime 0)), cv_positive_time_period_milliseconds)]"

text \<open>
  \<^verbatim>\<open>CONFIG_SCHEMA\<close>. The schema of every switch, \<^verbatim>\<open>switch.switch_schema(SolenoidSwitch)\<close>,
  and the schema of every component, \<^verbatim>\<open>cv.COMPONENT_SCHEMA\<close>, belong to ESPHome and are
  parameters here.
\<close>

definition solenoid_schema :: "schema \<Rightarrow> schema \<Rightarrow> schema" where
  "solenoid_schema switch_schema COMPONENT_SCHEMA =
     extend (extend switch_schema solenoid_options) COMPONENT_SCHEMA"

definition CONFIG_SCHEMA :: "schema \<Rightarrow> schema \<Rightarrow> config \<Rightarrow> error + config" where
  "CONFIG_SCHEMA switch_schema COMPONENT_SCHEMA =
     cv_All
       [Schema (solenoid_schema switch_schema COMPONENT_SCHEMA),
        validate_dc_latching_solenoid,
        validate_pin_b_and_half_bridge_combo]"

text \<open>What the theorems below ask of the parameter \<^verbatim>\<open>cv.COMPONENT_SCHEMA\<close>, which is extended
  last: it names none of the options of the solenoid switch, so that it replaces none of
  them.\<close>

definition keeps_options :: "schema \<Rightarrow> bool" where
  "keeps_options COMPONENT_SCHEMA =
     list_all (\<lambda>k. k \<notin> set (keys_of solenoid_options)) (keys_of COMPONENT_SCHEMA)"

section \<open>Code generation\<close>

text \<open>
  \<^verbatim>\<open>to_code\<close> adds statements to the generated program with \<^verbatim>\<open>cg.add\<close>: calls of the
  methods of the new switch. The model returns the list of the statements in the order
  they are added. \<^verbatim>\<open>switch.new_switch\<close> and \<^verbatim>\<open>cg.register_component\<close> are calls into ESPHome
  and stand in the list as they are.
\<close>

datatype statement =
    new_switch config
  | register_component config
  | connect_a_pin val
  | connect_b_pin val
  | connect_enable_pin val
  | set_energise_duration_ms val
  | set_dc_latch_redo_count val
  | set_dc_latch_redo_interval val
  | set_energise_power_percent val
  | set_hold_power_percent val
  | set_solenoid_type val
  | set_brake val
  | set_inverted val
  | set_half_bridge val
  | set_interlock "val list"
  | set_interlock_wait_time val

text \<open>Modelled from the spec: \<^verbatim>\<open>cg.get_variable\<close> of the library \<^verbatim>\<open>esphome.codegen\<close>,
  which gives the C++ variable declared under an identifier. The model names the
  variable by its identifier.\<close>

definition get_variable :: "val \<Rightarrow> val" where
  "get_variable i = i"

text \<open>One \<^verbatim>\<open>cg.add(f(config[k]))\<close>.\<close>

definition add_item :: "config \<Rightarrow> string \<Rightarrow> (val \<Rightarrow> statement) \<Rightarrow> statement list \<Rightarrow> error + statement list" where
  "add_item config k f code =
     (case getitem config k of Inl e \<Rightarrow> Inl e | Inr v \<Rightarrow> Inr (code @ [f v]))"

text \<open>The members that a Python \<^verbatim>\<open>for\<close> loop visits: of a list its members, of a text its
  characters; other values here are not iterable.\<close>

definition iterate :: "val \<Rightarrow> error + val list" where
  "iterate v =
     (case v of
        VList xs \<Rightarrow> Inr xs
      | VStr s \<Rightarrow> Inr (map (\<lambda>c. VStr [c]) s)
      | _ \<Rightarrow> Inl (TypeError ''object is not iterable''))"

definition to_code :: "config \<Rightarrow> error + statement list" where
  "to_code config =
     cv_All
       [\<lambda>code. Inr (code @ [new_switch config]),
        \<lambda>code. Inr (code @ [register_component config]),
        add_item config CONF_PIN_A (\<lambda>i. connect_a_pin (get_variable i)),
        \<lambda>code. if contains config CONF_PIN_B
           then add_item config CONF_PIN_B (\<lambda>i. connect_b_pin (get_variable i)) code
           else Inr code,
        \<lambda>code. if contains config CONF_BRIDGE_ENABLE_PIN
           then add_item config CONF_BRIDGE_ENABLE_PIN (\<lambda>i. connect_enable_pin (get_variable i)) code
           else Inr code,
        add_item config CONF_ENERGISE_DURATION_MS set_energise_duration_ms,
        add_item config CONF_DC_LATCH_REDO_COUNT set_dc_latch_redo_count,
        add_item config CONF_DC_LATCH_REDO_INTERVAL_MS set_dc_latch_redo_interval,
        add_item config CONF_ENERGISE_POWER_PERCENT set_energise_power_percent,
        add_item config CONF_HOLD_POWER_PERCENT set_hold_power_percent,
        add_item config CONF_SOLENOID_TYPE set_solenoid_type,
        add_item config CONF_BRAKE_IS_HIGH set_brake,
        add_item config CONF_INVERTED set_inverted,
        add_item config CONF_USING_HALF_BRIDGE set_half_bridge,
        \<lambda>code. if contains config CONF_INTERLOCK
           then
             (case getitem config CONF_INTERLOCK of
                Inl e \<Rightarrow> Inl e
              | Inr its \<Rightarrow>
                  (case iterate its of
                     Inl e \<Rightarrow> Inl e
                   | Inr locks \<Rightarrow>
                       add_item config CONF_INTERLOCK_WAIT_TIME set_interlock_wait_time
                         (code @ [set_interlock (map get_variable locks)])))
           else Inr code]
       []"

section \<open>The pulse policy of a DC latching solenoid\<close>

text \<open>
  The schema and the code generator above configure a driver written in C++, the class
  \<^verbatim>\<open>SolenoidSwitch\<close> that \<^verbatim>\<open>to_code\<close> instantiates. Its source is not under the source
  tree, so the part of it that pulses a DC latching solenoid is modelled from sections 3,
  4.2, 4.4 and 5 of the spec. Time is the monotonic clock in whole milliseconds. When the
  driver is polled is up to the scheduler: the spec gives a cadence in the tens of
  milliseconds and no more, so every statement below is about an arbitrary sequence of polls.
\<close>


text \<open>Modelled from the spec: the phases of \<^verbatim>\<open>DriverState\<close> (section 3) of the same missing
  driver. \<open>ENERGISE\<close> and \<open>HOLD\<close> belong to the AC and DC policies.\<close>

datatype phase = IDLE | ENERGISE | HOLD | PULSE | SETTLE

text \<open>Modelled from the spec: the directions that the missing driver asks of its bridge
  (section 4.1).\<close>

datatype direction = FORWARD | REVERSE | BRAKE | COAST











section \<open>Example configurations\<close>

text \<open>An instance of the two parameters: one option each, accepted as it is written.\<close>

definition example_switch_schema :: schema where
  "example_switch_schema = [(Optional ''name'' None, Inr)]"

definition example_component_schema :: schema where
  "example_component_schema = [(Optional ''setup_priority'' None, Inr)]"

text \<open>A DC latching solenoid on a full bridge, with every optional setting left out.\<close>

definition dc_latching_config :: config where
  "dc_latching_config =
     [(''name'', VStr ''Front lawn''),
      (CONF_PIN_A, VStr ''bridge_a''),
      (CONF_PIN_B, VStr ''bridge_b''),
      (CONF_ENERGISE_DURATION_MS, VInt 20),
      (CONF_SOLENOID_TYPE, VStr ''DC_LATCHING''),
      (CONF_BRAKE_IS_HIGH, VBool False)]"

text \<open>The same solenoid on a half-bridge.\<close>

definition dc_latching_half_bridge_config :: config where
  "dc_latching_half_bridge_config =
     [(''name'', VStr ''Front lawn''),
      (CONF_PIN_A, VStr ''bridge_a''),
      (CONF_PIN_B, VStr ''bridge_b''),
      (CONF_ENERGISE_DURATION_MS, VInt 20),
      (CONF_SOLENOID_TYPE, VStr ''DC_LATCHING''),
      (CONF_BRAKE_IS_HIGH, VBool False),
      (CONF_USING_HALF_BRIDGE, VBool True)]"

text \<open>An AC solenoid on a half-bridge, with a wait time and no list of interlocked switches.\<close>

definition ac_half_bridge_config :: config where
  "ac_half_bridge_config =
     [(CONF_PIN_A, VStr ''fet''),
      (CONF_ENERGISE_DURATION_MS, VInt 1000),
      (CONF_SOLENOID_TYPE, VStr ''ac''),
      (CONF_BRAKE_IS_HIGH, VBool False),
      (CONF_USING_HALF_BRIDGE, VBool True),
      (CONF_INTERLOCK_WAIT_TIME, VTime 250)]"

text \<open>A DC solenoid on a three-pin bridge, interlocked with two other switches.\<close>

definition dc_interlocked_config :: config where
  "dc_interlocked_config =
     [(CONF_PIN_A, VStr ''bridge_a''),
      (CONF_PIN_B, VStr ''bridge_b''),
      (CONF_BRIDGE_ENABLE_PIN, VStr ''bridge_en''),
      (CONF_ENERGISE_DURATION_MS, VInt 500),
      (CONF_DC_LATCH_REDO_COUNT, VInt 2),
      (CONF_DC_LATCH_REDO_INTERVAL_MS, VInt 1000),
      (CONF_ENERGISE_POWER_PERCENT, VPercent 100),
      (CONF_HOLD_POWER_PERCENT, VPercent 60),
      (CONF_SOLENOID_TYPE, VStr ''DC''),
      (CONF_BRAKE_IS_HIGH, VBool True),
      (CONF_INVERTED, VBool True),
      (CONF_USING_HALF_BRIDGE, VBool False),
      (CONF_INTERLOCK, VList [VStr ''valve_2'', VStr ''valve_3'']),
      (CONF_INTERLOCK_WAIT_TIME, VTime 1000)]"

text \<open>What validation makes of \<open>dc_latching_config\<close>, under the two example parameters.\<close>

definition dc_latching_validated :: config where
  "dc_latching_validated =
     [(''name'', VStr ''Front lawn''),
      (CONF_OUTPUT_ID, VId SolenoidSwitch None True),
      (CONF_PIN_A, VId FloatOutput (Some ''bridge_a'') False),
      (CONF_PIN_B, VId BinaryOutput (Some ''bridge_b'') False),
      (CONF_ENERGISE_DURATION_MS, VInt 20),
      (CONF_DC_LATCH_REDO_COUNT, VInt 3),
      (CONF_DC_LATCH_REDO_INTERVAL_MS, VInt 500),
      (CONF_ENERGISE_POWER_PERCENT, VFloat (95 / 100)),
      (CONF_HOLD_POWER_PERCENT, VFloat (55 / 100)),
      (CONF_SOLENOID_TYPE, VEnum ''DC_LATCHING'' SOLENOID_TYPE_DC_LATCHING),
      (CONF_BRAKE_IS_HIGH, VBool False),
      (CONF_INVERTED, VBool False),
      (CONF_USING_HALF_BRIDGE, VBool False),
      (CONF_INTERLOCK_WAIT_TIME, VTime 0)]"

text \<open>What validation makes of \<open>ac_half_bridge_config\<close> and of \<open>dc_interlocked_config\<close>.\<close>

definition ac_half_bridge_validated :: config where
  "ac_half_bridge_validated =
     [(CONF_OUTPUT_ID, VId SolenoidSwitch None True),
      (CONF_PIN_A, VId FloatOutput (Some ''fet'') False),
      (CONF_ENERGISE_DURATION_MS, VInt 1000),
      (CONF_DC_LATCH_REDO_COUNT, VInt 3),
      (CONF_DC_LATCH_REDO_INTERVAL_MS, VInt 500),
      (CONF_ENERGISE_POWER_PERCENT, VFloat (95 / 100)),
      (CONF_HOLD_POWER_PERCENT, VFloat (55 / 100)),
      (CONF_SOLENOID_TYPE, VEnum ''AC'' SOLENOID_TYPE_AC),
      (CONF_BRAKE_IS_HIGH, VBool False),
      (CONF_INVERTED, VBool False),
      (CONF_USING_HALF_BRIDGE, VBool True),
      (CONF_INTERLOCK_WAIT_TIME, VTime 250)]"

definition dc_interlocked_validated :: config where
  "dc_interlocked_validated =
     [(CONF_OUTPUT_ID, VId SolenoidSwitch None True),
      (CONF_PIN_A, VId FloatOutput (Some ''bridge_a'') False),
      (CONF_PIN_B, VId BinaryOutput (Some ''bridge_b'') False),
      (CONF_BRIDGE_ENABLE_PIN, VId BinaryOutput (Some ''bridge_en'') False),
      (CONF_ENERGISE_DURATION_MS, VInt 500),
      (CONF_DC_LATCH_REDO_COUNT, VInt 2),
      (CONF_DC_LATCH_REDO_INTERVAL_MS, VInt 1000),
      (CONF_ENERGISE_POWER_PERCENT, VFloat 1),
      (CONF_HOLD_POWER_PERCENT, VFloat (60 / 100)),
      (CONF_SOLENOID_TYPE, VEnum ''DC'' SOLENOID_TYPE_DC),
      (CONF_BRAKE_IS_HIGH, VBool True),
      (CONF_INVERTED, VBool True),
      (CONF_USING_HALF_BRIDGE, VBool False),
      (CONF_INTERLOCK,
       VList [VId Switch (Some ''valve_2'') False, VId Switch (Some ''valve_3'') False]),
      (CONF_INTERLOCK_WAIT_TIME, VTime 1000)]"

section \<open>Facts about dictionaries and schemas\<close>

lemma contains_iff: "contains config k \<longleftrightarrow> (\<exists>v. map_of config k = Some v)"
  by (simp add: contains_def)

lemma validate_items_in:
  "validate_items s data = Inr out \<Longrightarrow> (m, v) \<in> set s \<Longrightarrow>
     (case input_of m data of
        None \<Rightarrow> \<not> is_required m
      | Some x \<Rightarrow> \<exists>y. v x = Inr y \<and> map_of out (key_of m) \<noteq> None)"
proof (induction s arbitrary: out)
  case Nil
  then show ?case by simp
next
  case (Cons e s)
  obtain m' v' where e: "e = (m', v')" by (cases e)
  show ?case
  proof (cases "(m, v) = (m', v')")
    case True
    with Cons.prems e show ?thesis
      by (auto split: option.splits sum.splits if_splits)
  next
    case False
    with Cons.prems e have mem: "(m, v) \<in> set s" by auto
    from Cons.prems(1) e obtain out' where out': "validate_items s data = Inr out'"
      and sub: "\<forall>k. map_of out' k \<noteq> None \<longrightarrow> map_of out k \<noteq> None"
      by (auto split: option.splits sum.splits if_splits)
    from Cons.IH [OF out' mem] sub show ?thesis
      by (auto split: option.splits)
  qed
qed

lemma validate_items_out:
  "validate_items s data = Inr out \<Longrightarrow> map_of out k = Some y \<Longrightarrow>
     \<exists>m v x. (m, v) \<in> set s \<and> key_of m = k \<and> input_of m data = Some x \<and> v x = Inr y"
proof (induction s arbitrary: out)
  case Nil
  then show ?case by simp
next
  case (Cons e s)
  obtain m' v' where e: "e = (m', v')" by (cases e)
  show ?case
  proof (cases "input_of m' data")
    case None
    with Cons.prems e have "validate_items s data = Inr out"
      by (auto split: if_splits)
    from Cons.IH [OF this Cons.prems(2)] show ?thesis by auto
  next
    case (Some x)
    with Cons.prems(1) e obtain y' out' where y': "v' x = Inr y'"
      and out': "validate_items s data = Inr out'" and out: "out = (key_of m', y') # out'"
      by (auto split: sum.splits)
    show ?thesis
    proof (cases "k = key_of m'")
      case True
      with Cons.prems(2) out have "y = y'" by simp
      with True Some y' e show ?thesis by auto
    next
      case False
      with Cons.prems(2) out have "map_of out' k = Some y" by simp
      from Cons.IH [OF out' this] show ?thesis by auto
    qed
  qed
qed

lemma set_extend: "set (extend a b) = {e \<in> set a. key_of (fst e) \<notin> set (keys_of b)} \<union> set b"
  by (auto simp: extend_def)

lemma keys_of_mem: "(m, v) \<in> set s \<Longrightarrow> key_of m \<in> set (keys_of s)"
  by (force simp: keys_of_def)

lemma keys_solenoid_options:
  "keys_of solenoid_options =
     [CONF_OUTPUT_ID, CONF_PIN_A, CONF_PIN_B, CONF_BRIDGE_ENABLE_PIN, CONF_ENERGISE_DURATION_MS,
      CONF_DC_LATCH_REDO_COUNT, CONF_DC_LATCH_REDO_INTERVAL_MS, CONF_ENERGISE_POWER_PERCENT,
      CONF_HOLD_POWER_PERCENT, CONF_SOLENOID_TYPE, CONF_BRAKE_IS_HIGH, CONF_INVERTED,
      CONF_USING_HALF_BRIDGE, CONF_INTERLOCK, CONF_INTERLOCK_WAIT_TIME]"
  by (simp add: solenoid_options_def keys_of_def)

lemma distinct_solenoid_options: "distinct (keys_of solenoid_options)"
  unfolding keys_solenoid_options by simp

lemma distinct_keys_unique:
  "distinct (keys_of s) \<Longrightarrow> (m, v) \<in> set s \<Longrightarrow> (m', v') \<in> set s \<Longrightarrow> key_of m' = key_of m \<Longrightarrow>
     m' = m \<and> v' = v"
  unfolding keys_of_def
proof (induction s)
  case Nil
  then show ?case by simp
next
  case (Cons e s)
  then show ?case by (force simp: image_iff)
qed

text \<open>The item of an option of the solenoid switch is the only item of the whole schema with its name.\<close>

lemma solenoid_option_unique:
  assumes keeps: "keeps_options cs"
      and own: "(m, v) \<in> set solenoid_options"
      and mem: "(m', v') \<in> set (solenoid_schema ss cs)"
      and key: "key_of m' = key_of m"
  shows "m' = m \<and> v' = v"
proof -
  from own have k: "key_of m \<in> set (keys_of solenoid_options)" by (rule keys_of_mem)
  with keeps have notcomp: "key_of m \<notin> set (keys_of cs)"
    by (auto simp: keeps_options_def list_all_iff)
  from mem key notcomp keys_of_mem [of m' v' cs] have "(m', v') \<in> set (extend ss solenoid_options)"
    by (auto simp: set_extend solenoid_schema_def)
  with key k have "(m', v') \<in> set solenoid_options"
    by (auto simp: set_extend)
  from distinct_keys_unique [OF distinct_solenoid_options own this key] show ?thesis .
qed

lemma solenoid_option_mem:
  assumes keeps: "keeps_options cs"
      and own: "(m, v) \<in> set solenoid_options"
  shows "(m, v) \<in> set (solenoid_schema ss cs)"
proof -
  from own have k: "key_of m \<in> set (keys_of solenoid_options)" by (rule keys_of_mem)
  with keeps have notcomp: "key_of m \<notin> set (keys_of cs)"
    by (auto simp: keeps_options_def list_all_iff)
  with own show ?thesis by (auto simp: set_extend solenoid_schema_def)
qed

text \<open>What an accepted configuration says about one option of the solenoid switch.\<close>

lemma solenoid_option:
  assumes keeps: "keeps_options cs"
      and ok: "validate_items (solenoid_schema ss cs) data = Inr out"
      and own: "(m, v) \<in> set solenoid_options"
  shows "case input_of m data of
           None \<Rightarrow> \<not> is_required m \<and> map_of out (key_of m) = None
         | Some x \<Rightarrow> \<exists>y. v x = Inr y \<and> map_of out (key_of m) = Some y"
proof -
  let ?s = "solenoid_schema ss cs"
  have mem: "(m, v) \<in> set ?s" by (rule solenoid_option_mem [OF keeps own])
  note inn = validate_items_in [OF ok mem]
  show ?thesis
  proof (cases "input_of m data")
    case None
    have "map_of out (key_of m) = None"
    proof (rule ccontr)
      assume "map_of out (key_of m) \<noteq> None"
      then obtain y where "map_of out (key_of m) = Some y" by auto
      from validate_items_out [OF ok this] obtain m' v' x where
        m': "(m', v') \<in> set ?s" "key_of m' = key_of m" "input_of m' data = Some x" by auto
      from solenoid_option_unique [OF keeps own m'(1,2)] m'(3) None show False by simp
    qed
    with inn None show ?thesis by simp
  next
    case (Some x)
    with inn obtain y y' where y: "v x = Inr y" and y': "map_of out (key_of m) = Some y'" by auto
    from validate_items_out [OF ok y'] obtain m' v' x' where
      m': "(m', v') \<in> set ?s" "key_of m' = key_of m" "input_of m' data = Some x'" "v' x' = Inr y'" by auto
    from solenoid_option_unique [OF keeps own m'(1,2)] m'(3,4) Some y have "y' = y" by simp
    with Some y y' show ?thesis by simp
  qed
qed

subsection \<open>What each validator accepts\<close>

lemma cv_int_range_Inr:
  "cv_int_range lo hi x = Inr y \<longleftrightarrow> (\<exists>n. x = VInt n \<and> y = VInt n \<and> lo \<le> n \<and> n \<le> hi)"
  by (auto simp: cv_int_range_def cv_int_def cv_Range_def split: val.splits)

lemma cv_boolean_Inr: "cv_boolean x = Inr y \<longleftrightarrow> (\<exists>b. x = VBool b \<and> y = VBool b)"
  by (auto simp: cv_boolean_def split: val.splits)

lemma cv_use_id_Inr: "cv_use_id t x = Inr y \<Longrightarrow> \<exists>n. y = VId t n False"
  by (auto simp: cv_use_id_def split: val.splits if_splits)

lemma cv_enum_Inr:
  "cv_enum mapping True x = Inr y \<longleftrightarrow>
     (\<exists>s e. str_of x = Some s \<and> map_of mapping (upper s) = Some e \<and> y = VEnum (upper s) e)"
  by (auto simp: cv_enum_def Let_def split: option.splits)

lemma SOLENOID_TYPE_OPTIONS_Some:
  "map_of SOLENOID_TYPE_OPTIONS s = Some e \<longleftrightarrow>
     s = ''DC_LATCHING'' \<and> e = SOLENOID_TYPE_DC_LATCHING
     \<or> s = ''AC'' \<and> e = SOLENOID_TYPE_AC
     \<or> s = ''DC'' \<and> e = SOLENOID_TYPE_DC"
  by (auto simp: SOLENOID_TYPE_OPTIONS_def)

lemma cv_ensure_list_Inr: "cv_ensure_list v x = Inr y \<Longrightarrow> \<exists>ys. y = VList ys"
  by (auto simp: cv_ensure_list_def split: val.splits sum.splits)


subsection \<open>The stages of the pipeline\<close>

lemma validate_dc_latching_solenoid_Inr:
  "validate_dc_latching_solenoid c = Inr c' \<Longrightarrow> c' = c"
  by (auto simp: validate_dc_latching_solenoid_def split: sum.splits if_splits)

lemma validate_pin_b_and_half_bridge_combo_Inr:
  "validate_pin_b_and_half_bridge_combo c = Inr c' \<Longrightarrow> c' = c"
  by (auto simp: validate_pin_b_and_half_bridge_combo_def split: if_splits)

lemma Schema_Inr:
  "Schema s data = Inr out \<longleftrightarrow>
     (\<forall>k \<in> fst ` set data. k \<in> set (keys_of s)) \<and> validate_items s data = Inr out"
  by (auto simp: Schema_def list_ex_iff split: sum.splits)

lemma CONFIG_SCHEMA_Inr:
  "CONFIG_SCHEMA ss cs data = Inr out \<longleftrightarrow>
     Schema (solenoid_schema ss cs) data = Inr out
     \<and> validate_dc_latching_solenoid out = Inr out
     \<and> validate_pin_b_and_half_bridge_combo out = Inr out"
  by (auto simp: CONFIG_SCHEMA_def split: sum.splits
      dest: validate_dc_latching_solenoid_Inr validate_pin_b_and_half_bridge_combo_Inr)

subsection \<open>The three kinds of option\<close>

lemma required_option:
  assumes "keeps_options cs"
      and "validate_items (solenoid_schema ss cs) data = Inr out"
      and "(Required k, v) \<in> set solenoid_options"
  shows "\<exists>x y. map_of data k = Some x \<and> v x = Inr y \<and> map_of out k = Some y"
  using solenoid_option [OF assms]
  by (auto simp: input_of_def split: option.splits)

lemma optional_option:
  assumes "keeps_options cs"
      and "validate_items (solenoid_schema ss cs) data = Inr out"
      and "(Optional k None, v) \<in> set solenoid_options"
  shows "case map_of data k of
           None \<Rightarrow> map_of out k = None
         | Some x \<Rightarrow> \<exists>y. v x = Inr y \<and> map_of out k = Some y"
  using solenoid_option [OF assms]
  by (auto simp: input_of_def split: option.splits)

lemma default_option:
  assumes "keeps_options cs"
      and "validate_items (solenoid_schema ss cs) data = Inr out"
      and "(Optional k (Some d), v) \<in> set solenoid_options"
  shows "\<exists>y. v (case map_of data k of None \<Rightarrow> d | Some x \<Rightarrow> x) = Inr y \<and> map_of out k = Some y"
  using solenoid_option [OF assms]
  by (auto simp: input_of_def split: option.splits)

lemma Schema_Inl: "Schema s data = Inl e \<Longrightarrow> \<exists>msg. e = Invalid msg"
  by (auto simp: Schema_def split: if_splits sum.splits)

lemma CONFIG_SCHEMA_unfold:
  "CONFIG_SCHEMA ss cs data =
     (case Schema (solenoid_schema ss cs) data of
        Inl e \<Rightarrow> Inl e
      | Inr out \<Rightarrow>
          (case validate_dc_latching_solenoid out of
             Inl e \<Rightarrow> Inl e
           | Inr out' \<Rightarrow> validate_pin_b_and_half_bridge_combo out'))"
  by (simp add: CONFIG_SCHEMA_def split: sum.splits)

text \<open>The three options that the two validators read, once the schema has accepted.\<close>

lemma validated_bridge_options:
  assumes keeps: "keeps_options cs"
      and ok: "Schema (solenoid_schema ss cs) data = Inr out"
  shows "\<exists>t s e b.
           map_of data CONF_SOLENOID_TYPE = Some t \<and> str_of t = Some s
           \<and> map_of SOLENOID_TYPE_OPTIONS (upper s) = Some e
           \<and> map_of out CONF_SOLENOID_TYPE = Some (VEnum (upper s) e)
           \<and> map_of out CONF_USING_HALF_BRIDGE = Some (VBool b)
           \<and> (b \<longleftrightarrow> map_of data CONF_USING_HALF_BRIDGE = Some (VBool True))
           \<and> (contains out CONF_PIN_B \<longleftrightarrow> contains data CONF_PIN_B)"
proof -
  from ok have items: "validate_items (solenoid_schema ss cs) data = Inr out"
    by (simp add: Schema_Inr)
  have "(Required CONF_SOLENOID_TYPE, cv_enum SOLENOID_TYPE_OPTIONS True) \<in> set solenoid_options"
    by (simp add: solenoid_options_def)
  from required_option [OF keeps items this] obtain t s e where
    t: "map_of data CONF_SOLENOID_TYPE = Some t" "str_of t = Some s"
       "map_of SOLENOID_TYPE_OPTIONS (upper s) = Some e"
       "map_of out CONF_SOLENOID_TYPE = Some (VEnum (upper s) e)"
    by (auto simp: cv_enum_Inr)
  have "(Optional CONF_USING_HALF_BRIDGE (Some (VBool False)), cv_boolean) \<in> set solenoid_options"
    by (simp add: solenoid_options_def)
  from default_option [OF keeps items this] obtain b where
    b: "map_of out CONF_USING_HALF_BRIDGE = Some (VBool b)"
       "b \<longleftrightarrow> map_of data CONF_USING_HALF_BRIDGE = Some (VBool True)"
    by (auto simp: cv_boolean_Inr split: option.splits)
  have "(Optional CONF_PIN_B None, cv_use_id BinaryOutput) \<in> set solenoid_options"
    by (simp add: solenoid_options_def)
  from optional_option [OF keeps items this]
  have p: "contains out CONF_PIN_B \<longleftrightarrow> contains data CONF_PIN_B"
    by (auto simp: contains_def split: option.splits)
  from t b p show ?thesis by blast
qed

lemma py_eq_VEnum_VStr [simp]: "py_eq (VEnum s e) (VStr s') \<longleftrightarrow> s = s'"
  by (simp add: py_eq_def)

lemma py_eq_VBool [simp]: "py_eq (VBool b) (VBool b') \<longleftrightarrow> b = b'"
  by (simp add: py_eq_def)

lemma dc_latching_rejected:
  assumes keeps: "keeps_options cs"
      and dc: "map_of data CONF_SOLENOID_TYPE = Some t" "str_of t = Some s" "upper s = ''DC_LATCHING''"
      and bad: "map_of data CONF_USING_HALF_BRIDGE = Some (VBool True) \<or> \<not> contains data CONF_PIN_B"
  shows "\<exists>msg. CONFIG_SCHEMA ss cs data = Inl (Invalid msg)"
proof (cases "Schema (solenoid_schema ss cs) data")
  case (Inl e)
  with Schema_Inl [OF Inl] show ?thesis by (auto simp: CONFIG_SCHEMA_unfold)
next
  case (Inr out)
  from validated_bridge_options [OF keeps Inr] dc obtain e b where
    "map_of out CONF_SOLENOID_TYPE = Some (VEnum ''DC_LATCHING'' e)"
    "map_of out CONF_USING_HALF_BRIDGE = Some (VBool b)"
    "b \<longleftrightarrow> map_of data CONF_USING_HALF_BRIDGE = Some (VBool True)"
    "contains out CONF_PIN_B \<longleftrightarrow> contains data CONF_PIN_B"
    by auto
  with bad Inr show ?thesis
    by (auto simp: CONFIG_SCHEMA_unfold validate_dc_latching_solenoid_def getitem_def)
qed

lemma dc_latching_check_passes:
  assumes "map_of c CONF_SOLENOID_TYPE = Some t" "py_eq t (VStr ''DC_LATCHING'')"
      and "validate_dc_latching_solenoid c = Inr c'"
  shows "contains c CONF_PIN_B \<and> (\<exists>hb. map_of c CONF_USING_HALF_BRIDGE = Some hb \<and> \<not> py_eq hb (VBool True))"
  using assms
  by (auto simp: validate_dc_latching_solenoid_def getitem_def split: option.splits if_splits)

lemma combo_rejected:
  assumes keeps: "keeps_options cs"
      and bad: "(map_of data CONF_USING_HALF_BRIDGE = Some (VBool True)) = contains data CONF_PIN_B"
  shows "\<exists>msg. CONFIG_SCHEMA ss cs data = Inl (Invalid msg)"
proof (cases "Schema (solenoid_schema ss cs) data")
  case (Inl e)
  with Schema_Inl [OF Inl] show ?thesis by (auto simp: CONFIG_SCHEMA_unfold)
next
  case (Inr out)
  from validated_bridge_options [OF keeps Inr] obtain s e b where
    "map_of out CONF_SOLENOID_TYPE = Some (VEnum s e)"
    "map_of out CONF_USING_HALF_BRIDGE = Some (VBool b)"
    "b \<longleftrightarrow> map_of data CONF_USING_HALF_BRIDGE = Some (VBool True)"
    "contains out CONF_PIN_B \<longleftrightarrow> contains data CONF_PIN_B"
    by auto
  with bad Inr show ?thesis
    by (auto simp: CONFIG_SCHEMA_unfold validate_dc_latching_solenoid_def
        validate_pin_b_and_half_bridge_combo_def getitem_def contains_def)
qed

lemma combo_accepted:
  assumes keeps: "keeps_options cs"
      and ok: "CONFIG_SCHEMA ss cs data = Inr out"
  shows "(map_of out CONF_USING_HALF_BRIDGE = Some (VBool True)) \<noteq> contains out CONF_PIN_B"
proof -
  from ok have sch: "Schema (solenoid_schema ss cs) data = Inr out"
    and combo: "validate_pin_b_and_half_bridge_combo out = Inr out"
    by (simp_all add: CONFIG_SCHEMA_Inr)
  from validated_bridge_options [OF keeps sch] obtain b where
    "map_of out CONF_USING_HALF_BRIDGE = Some (VBool b)" by auto
  with combo show ?thesis
    by (auto simp: validate_pin_b_and_half_bridge_combo_def contains_def split: if_splits)
qed

subsection \<open>Changing one option of an accepted configuration\<close>

lemma validate_items_replace:
  assumes ok: "validate_items s data = Inr out"
      and same: "\<And>k. k \<noteq> K \<Longrightarrow> map_of data' k = map_of data k"
      and acc: "\<And>m v. (m, v) \<in> set s \<Longrightarrow> key_of m = K \<Longrightarrow>
                  (case input_of m data' of None \<Rightarrow> \<not> is_required m | Some x \<Rightarrow> \<exists>y. v x = Inr y)"
  shows "\<exists>out'. validate_items s data' = Inr out' \<and> (\<forall>k. k \<noteq> K \<longrightarrow> map_of out' k = map_of out k)"
  using ok acc
proof (induction s arbitrary: out)
  case Nil
  then show ?case by simp
next
  case (Cons e s)
  obtain m v where e: "e = (m, v)" by (cases e)
  have acc': "\<And>m v. (m, v) \<in> set s \<Longrightarrow> key_of m = K \<Longrightarrow>
                  (case input_of m data' of None \<Rightarrow> \<not> is_required m | Some x \<Rightarrow> \<exists>y. v x = Inr y)"
    using Cons.prems(2) by simp
  have here: "key_of m = K \<Longrightarrow>
     (case input_of m data' of None \<Rightarrow> \<not> is_required m | Some x \<Rightarrow> \<exists>y. v x = Inr y)"
    using Cons.prems(2) [of m v] e by simp
  have inp: "key_of m \<noteq> K \<Longrightarrow> input_of m data' = input_of m data"
    using same by (simp add: input_of_def)
  show ?case
  proof (cases "input_of m data")
    case None
    with Cons.prems(1) e have rest: "validate_items s data = Inr out" and nreq: "\<not> is_required m"
      by (auto split: if_splits)
    from Cons.IH [OF rest acc'] obtain out' where
      out': "validate_items s data' = Inr out'" "\<forall>k. k \<noteq> K \<longrightarrow> map_of out' k = map_of out k"
      by blast
    show ?thesis
    proof (cases "key_of m = K")
      case True
      with here out' e nreq show ?thesis
        by (auto split: option.splits)
    next
      case False
      with inp None out' e nreq show ?thesis by auto
    qed
  next
    case (Some x)
    with Cons.prems(1) e obtain y o1 where y: "v x = Inr y"
      and rest: "validate_items s data = Inr o1" and out: "out = (key_of m, y) # o1"
      by (auto split: sum.splits)
    from Cons.IH [OF rest acc'] obtain out' where
      out': "validate_items s data' = Inr out'" "\<forall>k. k \<noteq> K \<longrightarrow> map_of out' k = map_of o1 k"
      by blast
    show ?thesis
    proof (cases "key_of m = K")
      case True
      with here out' e out show ?thesis
        by (auto split: option.splits)
    next
      case False
      with inp Some y out' e out show ?thesis by auto
    qed
  qed
qed

lemma Schema_replace:
  assumes ok: "Schema s data = Inr out"
      and same: "\<And>k. k \<noteq> K \<Longrightarrow> map_of data' k = map_of data k"
      and keys: "fst ` set data' \<subseteq> insert K (fst ` set data)"
      and known: "K \<in> set (keys_of s)"
      and acc: "\<And>m v. (m, v) \<in> set s \<Longrightarrow> key_of m = K \<Longrightarrow>
                  (case input_of m data' of None \<Rightarrow> \<not> is_required m | Some x \<Rightarrow> \<exists>y. v x = Inr y)"
  shows "\<exists>out'. Schema s data' = Inr out' \<and> (\<forall>k. k \<noteq> K \<longrightarrow> map_of out' k = map_of out k)"
proof -
  from ok have k: "\<forall>k \<in> fst ` set data. k \<in> set (keys_of s)"
    and items: "validate_items s data = Inr out"
    by (simp_all add: Schema_Inr)
  from validate_items_replace [OF items same acc] obtain out' where
    out': "validate_items s data' = Inr out'" "\<forall>k. k \<noteq> K \<longrightarrow> map_of out' k = map_of out k"
    by blast
  from k keys known have "\<forall>k \<in> fst ` set data'. k \<in> set (keys_of s)" by blast
  with out' show ?thesis by (auto simp: Schema_Inr)
qed

text \<open>The two validators over the whole configuration read three options only.\<close>

lemma whole_validators_cong:
  assumes "map_of c' CONF_SOLENOID_TYPE = map_of c CONF_SOLENOID_TYPE"
      and "map_of c' CONF_USING_HALF_BRIDGE = map_of c CONF_USING_HALF_BRIDGE"
      and "map_of c' CONF_PIN_B = map_of c CONF_PIN_B"
      and "validate_dc_latching_solenoid c = Inr c"
      and "validate_pin_b_and_half_bridge_combo c = Inr c"
  shows "validate_dc_latching_solenoid c' = Inr c' \<and> validate_pin_b_and_half_bridge_combo c' = Inr c'"
  using assms
  by (auto simp: validate_dc_latching_solenoid_def validate_pin_b_and_half_bridge_combo_def
      getitem_def contains_def split: option.splits if_splits)

lemma solenoid_key_known:
  assumes "keeps_options cs" and "(m, v) \<in> set solenoid_options"
  shows "key_of m \<in> set (keys_of (solenoid_schema ss cs))"
  using solenoid_option_mem [OF assms] by (rule keys_of_mem)

text \<open>An option of the solenoid switch, set to a value that its validator accepts.\<close>

lemma Schema_update_option:
  assumes keeps: "keeps_options cs"
      and ok: "Schema (solenoid_schema ss cs) data = Inr out"
      and own: "(m, v) \<in> set solenoid_options"
      and good: "v x = Inr y"
  shows "\<exists>out'. Schema (solenoid_schema ss cs) (AList.update (key_of m) x data) = Inr out'
           \<and> (\<forall>k. k \<noteq> key_of m \<longrightarrow> map_of out' k = map_of out k)"
proof (rule Schema_replace [OF ok])
  show "\<And>k. k \<noteq> key_of m \<Longrightarrow> map_of (AList.update (key_of m) x data) k = map_of data k"
    by (simp add: update_conv')
  show "fst ` set (AList.update (key_of m) x data) \<subseteq> insert (key_of m) (fst ` set data)"
    by (simp add: dom_update)
  show "key_of m \<in> set (keys_of (solenoid_schema ss cs))"
    by (rule solenoid_key_known [OF keeps own])
  show "\<And>m' v'. (m', v') \<in> set (solenoid_schema ss cs) \<Longrightarrow> key_of m' = key_of m \<Longrightarrow>
          (case input_of m' (AList.update (key_of m) x data) of
             None \<Rightarrow> \<not> is_required m' | Some x \<Rightarrow> \<exists>y. v' x = Inr y)"
  proof -
    fix m' v'
    assume "(m', v') \<in> set (solenoid_schema ss cs)" "key_of m' = key_of m"
    from solenoid_option_unique [OF keeps own this] good
    show "case input_of m' (AList.update (key_of m) x data) of
             None \<Rightarrow> \<not> is_required m' | Some x \<Rightarrow> \<exists>y. v' x = Inr y"
      by (simp add: input_of_def update_conv')
  qed
qed

text \<open>An option of the solenoid switch that is optional and has no default, taken out.\<close>

lemma Schema_delete_option:
  assumes keeps: "keeps_options cs"
      and ok: "Schema (solenoid_schema ss cs) data = Inr out"
      and own: "(Optional K None, v) \<in> set solenoid_options"
  shows "\<exists>out'. Schema (solenoid_schema ss cs) (AList.delete K data) = Inr out'
           \<and> (\<forall>k. k \<noteq> K \<longrightarrow> map_of out' k = map_of out k)"
proof (rule Schema_replace [OF ok])
  show "\<And>k. k \<noteq> K \<Longrightarrow> map_of (AList.delete K data) k = map_of data k"
    by (simp add: delete_conv')
  show "fst ` set (AList.delete K data) \<subseteq> insert K (fst ` set data)"
    by (auto simp: AList.delete_eq)
  show "K \<in> set (keys_of (solenoid_schema ss cs))"
    using solenoid_key_known [OF keeps own] by simp
  show "\<And>m' v'. (m', v') \<in> set (solenoid_schema ss cs) \<Longrightarrow> key_of m' = K \<Longrightarrow>
          (case input_of m' (AList.delete K data) of
             None \<Rightarrow> \<not> is_required m' | Some x \<Rightarrow> \<exists>y. v' x = Inr y)"
  proof -
    fix m' v'
    assume "(m', v') \<in> set (solenoid_schema ss cs)" "key_of m' = K"
    with solenoid_option_unique [OF keeps own, of m' v' ss]
    show "case input_of m' (AList.delete K data) of
             None \<Rightarrow> \<not> is_required m' | Some x \<Rightarrow> \<exists>y. v' x = Inr y"
      by (simp add: input_of_def delete_conv')
  qed
qed

text \<open>The same through the whole validation, for an option that the two validators do not read.\<close>

lemma CONFIG_SCHEMA_update_option:
  assumes keeps: "keeps_options cs"
      and ok: "CONFIG_SCHEMA ss cs data = Inr out"
      and own: "(m, v) \<in> set solenoid_options"
      and good: "v x = Inr y"
      and other: "key_of m \<noteq> CONF_SOLENOID_TYPE" "key_of m \<noteq> CONF_USING_HALF_BRIDGE"
                 "key_of m \<noteq> CONF_PIN_B"
  shows "\<exists>out'. CONFIG_SCHEMA ss cs (AList.update (key_of m) x data) = Inr out'"
proof -
  from ok have sch: "Schema (solenoid_schema ss cs) data = Inr out"
    and dc: "validate_dc_latching_solenoid out = Inr out"
    and combo: "validate_pin_b_and_half_bridge_combo out = Inr out"
    by (simp_all add: CONFIG_SCHEMA_Inr)
  from Schema_update_option [OF keeps sch own good] obtain out' where
    out': "Schema (solenoid_schema ss cs) (AList.update (key_of m) x data) = Inr out'"
          "\<forall>k. k \<noteq> key_of m \<longrightarrow> map_of out' k = map_of out k"
    by blast
  from out'(2) other have
    "map_of out' CONF_SOLENOID_TYPE = map_of out CONF_SOLENOID_TYPE"
    "map_of out' CONF_USING_HALF_BRIDGE = map_of out CONF_USING_HALF_BRIDGE"
    "map_of out' CONF_PIN_B = map_of out CONF_PIN_B"
    by metis+
  from whole_validators_cong [OF this dc combo] out'(1) show ?thesis
    by (auto simp: CONFIG_SCHEMA_Inr)
qed

text \<open>An option of the solenoid switch whose value its validator refuses, or a required one
  that is missing.\<close>

lemma option_rejected:
  assumes keeps: "keeps_options cs"
      and own: "(m, v) \<in> set solenoid_options"
      and bad: "case input_of m data of None \<Rightarrow> is_required m | Some x \<Rightarrow> \<forall>y. v x \<noteq> Inr y"
  shows "\<exists>msg. CONFIG_SCHEMA ss cs data = Inl (Invalid msg)"
proof (cases "Schema (solenoid_schema ss cs) data")
  case (Inl e)
  with Schema_Inl [OF Inl] show ?thesis by (auto simp: CONFIG_SCHEMA_unfold)
next
  case (Inr out)
  then have "validate_items (solenoid_schema ss cs) data = Inr out"
    by (simp add: Schema_Inr)
  from solenoid_option [OF keeps this own] bad show ?thesis
    by (auto split: option.splits)
qed

lemma energise_duration_ms_option:
  "(Required CONF_ENERGISE_DURATION_MS, cv_int_range 10 3000) \<in> set solenoid_options"
  by (simp add: solenoid_options_def)

lemma dc_latch_redo_count_option:
  "(Optional CONF_DC_LATCH_REDO_COUNT (Some (VInt 3)), cv_int_range 1 5) \<in> set solenoid_options"
  by (simp add: solenoid_options_def)

lemma dc_latch_redo_interval_ms_option:
  "(Optional CONF_DC_LATCH_REDO_INTERVAL_MS (Some (VInt 500)), cv_int_range 500 3000)
     \<in> set solenoid_options"
  by (simp add: solenoid_options_def)

lemma int_option_update:
  assumes keeps: "keeps_options cs"
      and ok: "CONFIG_SCHEMA ss cs data = Inr out"
      and own: "(m, cv_int_range lo hi) \<in> set solenoid_options"
      and other: "key_of m \<noteq> CONF_SOLENOID_TYPE" "key_of m \<noteq> CONF_USING_HALF_BRIDGE"
                 "key_of m \<noteq> CONF_PIN_B"
      and range: "lo \<le> n" "n \<le> hi"
  shows "\<exists>out'. CONFIG_SCHEMA ss cs (AList.update (key_of m) (VInt n) data) = Inr out'"
proof -
  from range have "cv_int_range lo hi (VInt n) = Inr (VInt n)"
    by (simp add: cv_int_range_Inr)
  from CONFIG_SCHEMA_update_option [OF keeps ok own this other] show ?thesis .
qed

lemma int_option_rejected:
  assumes keeps: "keeps_options cs"
      and own: "(m, cv_int_range lo hi) \<in> set solenoid_options"
      and v: "map_of data (key_of m) = Some x"
      and bad: "\<forall>n. x = VInt n \<longrightarrow> n < lo \<or> hi < n"
  shows "\<exists>msg. CONFIG_SCHEMA ss cs data = Inl (Invalid msg)"
proof (rule option_rejected [OF keeps own])
  from bad have "\<forall>y. cv_int_range lo hi x \<noteq> Inr y"
    by (auto simp: cv_int_range_Inr)
  with v show "case input_of m data of None \<Rightarrow> is_required m
               | Some x \<Rightarrow> \<forall>y. cv_int_range lo hi x \<noteq> Inr y"
    by (simp add: input_of_def)
qed

lemma CONFIG_SCHEMA_delete_option:
  assumes keeps: "keeps_options cs"
      and ok: "CONFIG_SCHEMA ss cs data = Inr out"
      and own: "(Optional K None, v) \<in> set solenoid_options"
      and other: "K \<noteq> CONF_SOLENOID_TYPE" "K \<noteq> CONF_USING_HALF_BRIDGE" "K \<noteq> CONF_PIN_B"
  shows "\<exists>out'. CONFIG_SCHEMA ss cs (AList.delete K data) = Inr out'"
proof -
  from ok have sch: "Schema (solenoid_schema ss cs) data = Inr out"
    and dc: "validate_dc_latching_solenoid out = Inr out"
    and combo: "validate_pin_b_and_half_bridge_combo out = Inr out"
    by (simp_all add: CONFIG_SCHEMA_Inr)
  from Schema_delete_option [OF keeps sch own] obtain out' where
    out': "Schema (solenoid_schema ss cs) (AList.delete K data) = Inr out'"
          "\<forall>k. k \<noteq> K \<longrightarrow> map_of out' k = map_of out k"
    by blast
  from out'(2) other have
    "map_of out' CONF_SOLENOID_TYPE = map_of out CONF_SOLENOID_TYPE"
    "map_of out' CONF_USING_HALF_BRIDGE = map_of out CONF_USING_HALF_BRIDGE"
    "map_of out' CONF_PIN_B = map_of out CONF_PIN_B"
    by metis+
  from whole_validators_cong [OF this dc combo] out'(1) show ?thesis
    by (auto simp: CONFIG_SCHEMA_Inr)
qed

lemma pin_a_option: "(Required CONF_PIN_A, cv_use_id FloatOutput) \<in> set solenoid_options"
  by (simp add: solenoid_options_def)

lemma pin_b_option: "(Optional CONF_PIN_B None, cv_use_id BinaryOutput) \<in> set solenoid_options"
  by (simp add: solenoid_options_def)

lemma enable_pin_option:
  "(Optional CONF_BRIDGE_ENABLE_PIN None, cv_use_id BinaryOutput) \<in> set solenoid_options"
  by (simp add: solenoid_options_def)

lemma pins_typed:
  assumes keeps: "keeps_options cs"
      and ok: "CONFIG_SCHEMA ss cs data = Inr out"
  shows "(\<exists>n. map_of out CONF_PIN_A = Some (VId FloatOutput n False))
       \<and> (case map_of out CONF_PIN_B of
             None \<Rightarrow> map_of data CONF_PIN_B = None
           | Some i \<Rightarrow> \<exists>n. i = VId BinaryOutput n False)
       \<and> (case map_of out CONF_BRIDGE_ENABLE_PIN of
             None \<Rightarrow> map_of data CONF_BRIDGE_ENABLE_PIN = None
           | Some i \<Rightarrow> \<exists>n. i = VId BinaryOutput n False)"
proof -
  from ok have items: "validate_items (solenoid_schema ss cs) data = Inr out"
    by (simp add: CONFIG_SCHEMA_Inr Schema_Inr)
  from required_option [OF keeps items pin_a_option]
  have a: "\<exists>n. map_of out CONF_PIN_A = Some (VId FloatOutput n False)"
    by (auto dest: cv_use_id_Inr)
  from optional_option [OF keeps items pin_b_option]
  have b: "case map_of out CONF_PIN_B of
             None \<Rightarrow> map_of data CONF_PIN_B = None
           | Some i \<Rightarrow> \<exists>n. i = VId BinaryOutput n False"
    by (auto split: option.splits dest: cv_use_id_Inr)
  from optional_option [OF keeps items enable_pin_option]
  have e: "case map_of out CONF_BRIDGE_ENABLE_PIN of
             None \<Rightarrow> map_of data CONF_BRIDGE_ENABLE_PIN = None
           | Some i \<Rightarrow> \<exists>n. i = VId BinaryOutput n False"
    by (auto split: option.splits dest: cv_use_id_Inr)
  from a b e show ?thesis by blast
qed

lemma pin_a_missing:
  assumes keeps: "keeps_options cs"
      and none: "map_of data CONF_PIN_A = None"
  shows "\<exists>msg. CONFIG_SCHEMA ss cs data = Inl (Invalid msg)"
proof (rule option_rejected [OF keeps pin_a_option])
  from none show "case input_of (Required CONF_PIN_A) data of
      None \<Rightarrow> is_required (Required CONF_PIN_A)
    | Some x \<Rightarrow> \<forall>y. cv_use_id FloatOutput x \<noteq> Inr y"
    by (simp add: input_of_def)
qed

lemma solenoid_type_option:
  "(Required CONF_SOLENOID_TYPE, cv_enum SOLENOID_TYPE_OPTIONS True) \<in> set solenoid_options"
  by (simp add: solenoid_options_def)

lemma map_of_SOLENOID_TYPE_OPTIONS:
  "(\<exists>e. map_of SOLENOID_TYPE_OPTIONS s = Some e) \<longleftrightarrow> s \<in> {''DC_LATCHING'', ''AC'', ''DC''}"
  by (auto simp: SOLENOID_TYPE_OPTIONS_def)

lemma solenoid_type_rejected:
  assumes keeps: "keeps_options cs"
      and bad: "\<not> (\<exists>t s. map_of data CONF_SOLENOID_TYPE = Some t \<and> str_of t = Some s
                        \<and> upper s \<in> {''DC_LATCHING'', ''AC'', ''DC''})"
  shows "\<exists>msg. CONFIG_SCHEMA ss cs data = Inl (Invalid msg)"
proof (rule option_rejected [OF keeps solenoid_type_option])
  show "case input_of (Required CONF_SOLENOID_TYPE) data of
          None \<Rightarrow> is_required (Required CONF_SOLENOID_TYPE)
        | Some x \<Rightarrow> \<forall>y. cv_enum SOLENOID_TYPE_OPTIONS True x \<noteq> Inr y"
  proof (cases "map_of data CONF_SOLENOID_TYPE")
    case None
    then show ?thesis by (simp add: input_of_def)
  next
    case (Some t)
    have "\<forall>y. cv_enum SOLENOID_TYPE_OPTIONS True t \<noteq> Inr y"
    proof (intro allI notI)
      fix y assume "cv_enum SOLENOID_TYPE_OPTIONS True t = Inr y"
      then obtain s e where "str_of t = Some s" "map_of SOLENOID_TYPE_OPTIONS (upper s) = Some e"
        by (auto simp: cv_enum_Inr)
      with bad Some map_of_SOLENOID_TYPE_OPTIONS [of "upper s"] show False by blast
    qed
    with Some show ?thesis by (simp add: input_of_def)
  qed
qed

lemma solenoid_type_validated:
  assumes keeps: "keeps_options cs"
      and ok: "Schema (solenoid_schema ss cs) data = Inr out"
  shows "map_of out CONF_SOLENOID_TYPE
           \<in> {Some (VEnum ''DC_LATCHING'' SOLENOID_TYPE_DC_LATCHING),
              Some (VEnum ''AC'' SOLENOID_TYPE_AC),
              Some (VEnum ''DC'' SOLENOID_TYPE_DC)}"
  using validated_bridge_options [OF keeps ok]
  by (auto simp: SOLENOID_TYPE_OPTIONS_Some)

lemma solenoid_type_update:
  assumes keeps: "keeps_options cs"
      and ok: "Schema (solenoid_schema ss cs) data = Inr out"
      and good: "upper s \<in> {''DC_LATCHING'', ''AC'', ''DC''}"
  shows "\<exists>out'. Schema (solenoid_schema ss cs) (AList.update CONF_SOLENOID_TYPE (VStr s) data)
                  = Inr out'
          \<and> (\<forall>k. k \<noteq> CONF_SOLENOID_TYPE \<longrightarrow> map_of out' k = map_of out k)"
proof -
  from good map_of_SOLENOID_TYPE_OPTIONS [of "upper s"] obtain e where
    "map_of SOLENOID_TYPE_OPTIONS (upper s) = Some e" by blast
  then have "cv_enum SOLENOID_TYPE_OPTIONS True (VStr s) = Inr (VEnum (upper s) e)"
    by (simp add: cv_enum_Inr)
  from Schema_update_option [OF keeps ok solenoid_type_option this] show ?thesis by simp
qed

text \<open>A type other than DC latching passes the DC latching check whatever the pins are.\<close>

lemma solenoid_type_update_accepted:
  assumes keeps: "keeps_options cs"
      and ok: "CONFIG_SCHEMA ss cs data = Inr out"
      and good: "upper s \<in> {''AC'', ''DC''}"
  shows "\<exists>out'. CONFIG_SCHEMA ss cs (AList.update CONF_SOLENOID_TYPE (VStr s) data) = Inr out'"
proof -
  let ?data' = "AList.update CONF_SOLENOID_TYPE (VStr s) data"
  from ok have sch: "Schema (solenoid_schema ss cs) data = Inr out"
    and combo: "validate_pin_b_and_half_bridge_combo out = Inr out"
    by (simp_all add: CONFIG_SCHEMA_Inr)
  from good have "upper s \<in> {''DC_LATCHING'', ''AC'', ''DC''}" by auto
  from solenoid_type_update [OF keeps sch this] obtain out' where
    out': "Schema (solenoid_schema ss cs) ?data' = Inr out'"
          "\<forall>k. k \<noteq> CONF_SOLENOID_TYPE \<longrightarrow> map_of out' k = map_of out k"
    by blast
  from validated_bridge_options [OF keeps out'(1)] obtain e where
    t: "map_of out' CONF_SOLENOID_TYPE = Some (VEnum (upper s) e)"
    by (auto simp: update_conv')
  from t good have dc: "validate_dc_latching_solenoid out' = Inr out'"
    by (auto simp: validate_dc_latching_solenoid_def getitem_def)
  from out'(2) have
    "map_of out' CONF_USING_HALF_BRIDGE = map_of out CONF_USING_HALF_BRIDGE"
    "map_of out' CONF_PIN_B = map_of out CONF_PIN_B"
    by simp_all
  with combo have "validate_pin_b_and_half_bridge_combo out' = Inr out'"
    by (auto simp: validate_pin_b_and_half_bridge_combo_def contains_def split: if_splits)
  with dc out'(1) show ?thesis by (auto simp: CONFIG_SCHEMA_Inr)
qed

subsection \<open>The generated statements of an accepted configuration\<close>

lemma validated_settings:
  assumes keeps: "keeps_options cs"
      and ok: "CONFIG_SCHEMA ss cs data = Inr out"
  shows "\<exists>a d c i e h t b inv hb w.
           map_of out CONF_PIN_A = Some a
         \<and> map_of out CONF_ENERGISE_DURATION_MS = Some d
         \<and> map_of out CONF_DC_LATCH_REDO_COUNT = Some c
         \<and> map_of out CONF_DC_LATCH_REDO_INTERVAL_MS = Some i
         \<and> map_of out CONF_ENERGISE_POWER_PERCENT = Some e
         \<and> map_of out CONF_HOLD_POWER_PERCENT = Some h
         \<and> map_of out CONF_SOLENOID_TYPE = Some t
         \<and> map_of out CONF_BRAKE_IS_HIGH = Some b
         \<and> map_of out CONF_INVERTED = Some inv
         \<and> map_of out CONF_USING_HALF_BRIDGE = Some hb
         \<and> map_of out CONF_INTERLOCK_WAIT_TIME = Some w"
proof -
  from ok have items: "validate_items (solenoid_schema ss cs) data = Inr out"
    by (simp add: CONFIG_SCHEMA_Inr Schema_Inr)
  note r = required_option [OF keeps items]
  note d = default_option [OF keeps items]
  have "\<exists>a. map_of out CONF_PIN_A = Some a"
    using r [of CONF_PIN_A "cv_use_id FloatOutput"] by (auto simp: solenoid_options_def)
  moreover have "\<exists>d. map_of out CONF_ENERGISE_DURATION_MS = Some d"
    using r [of CONF_ENERGISE_DURATION_MS "cv_int_range 10 3000"]
    by (auto simp: solenoid_options_def)
  moreover have "\<exists>c. map_of out CONF_DC_LATCH_REDO_COUNT = Some c"
    using d [of CONF_DC_LATCH_REDO_COUNT "VInt 3" "cv_int_range 1 5"]
    by (auto simp: solenoid_options_def)
  moreover have "\<exists>i. map_of out CONF_DC_LATCH_REDO_INTERVAL_MS = Some i"
    using d [of CONF_DC_LATCH_REDO_INTERVAL_MS "VInt 500" "cv_int_range 500 3000"]
    by (auto simp: solenoid_options_def)
  moreover have "\<exists>e. map_of out CONF_ENERGISE_POWER_PERCENT = Some e"
    using d [of CONF_ENERGISE_POWER_PERCENT "VPercent 95" cv_percentage]
    by (auto simp: solenoid_options_def)
  moreover have "\<exists>h. map_of out CONF_HOLD_POWER_PERCENT = Some h"
    using d [of CONF_HOLD_POWER_PERCENT "VPercent 55" cv_percentage]
    by (auto simp: solenoid_options_def)
  moreover have "\<exists>t. map_of out CONF_SOLENOID_TYPE = Some t"
    using r [of CONF_SOLENOID_TYPE "cv_enum SOLENOID_TYPE_OPTIONS True"]
    by (auto simp: solenoid_options_def)
  moreover have "\<exists>b. map_of out CONF_BRAKE_IS_HIGH = Some b"
    using r [of CONF_BRAKE_IS_HIGH cv_boolean] by (auto simp: solenoid_options_def)
  moreover have "\<exists>inv. map_of out CONF_INVERTED = Some inv"
    using d [of CONF_INVERTED "VBool False" cv_boolean] by (auto simp: solenoid_options_def)
  moreover have "\<exists>hb. map_of out CONF_USING_HALF_BRIDGE = Some hb"
    using d [of CONF_USING_HALF_BRIDGE "VBool False" cv_boolean]
    by (auto simp: solenoid_options_def)
  moreover have "\<exists>w. map_of out CONF_INTERLOCK_WAIT_TIME = Some w"
    using d [of CONF_INTERLOCK_WAIT_TIME "VTime 0" cv_positive_time_period_milliseconds]
    by (auto simp: solenoid_options_def)
  ultimately show ?thesis by blast
qed

lemma validated_optionals:
  assumes keeps: "keeps_options cs"
      and ok: "CONFIG_SCHEMA ss cs data = Inr out"
  shows "(contains out CONF_PIN_B \<longleftrightarrow> contains data CONF_PIN_B)
       \<and> (contains out CONF_BRIDGE_ENABLE_PIN \<longleftrightarrow> contains data CONF_BRIDGE_ENABLE_PIN)
       \<and> (contains out CONF_INTERLOCK \<longleftrightarrow> contains data CONF_INTERLOCK)
       \<and> (map_of out CONF_INTERLOCK = None \<or> (\<exists>its. map_of out CONF_INTERLOCK = Some (VList its)))"
proof -
  from ok have items: "validate_items (solenoid_schema ss cs) data = Inr out"
    by (simp add: CONFIG_SCHEMA_Inr Schema_Inr)
  note o = optional_option [OF keeps items]
  have "contains out CONF_PIN_B \<longleftrightarrow> contains data CONF_PIN_B"
    using o [of CONF_PIN_B "cv_use_id BinaryOutput"]
    by (auto simp: solenoid_options_def contains_def split: option.splits)
  moreover have "contains out CONF_BRIDGE_ENABLE_PIN \<longleftrightarrow> contains data CONF_BRIDGE_ENABLE_PIN"
    using o [of CONF_BRIDGE_ENABLE_PIN "cv_use_id BinaryOutput"]
    by (auto simp: solenoid_options_def contains_def split: option.splits)
  moreover have "(contains out CONF_INTERLOCK \<longleftrightarrow> contains data CONF_INTERLOCK)
      \<and> (map_of out CONF_INTERLOCK = None \<or> (\<exists>its. map_of out CONF_INTERLOCK = Some (VList its)))"
    using o [of CONF_INTERLOCK "cv_ensure_list (cv_use_id Switch)"]
    by (auto simp: solenoid_options_def contains_def split: option.splits
        dest: cv_ensure_list_Inr)
  ultimately show ?thesis by blast
qed

lemma map_get_variable: "map get_variable xs = xs"
  by (induction xs) (simp_all add: get_variable_def)

lemma to_code_accepted:
  assumes keeps: "keeps_options cs"
      and ok: "CONFIG_SCHEMA ss cs data = Inr out"
  shows "\<exists>a d c i e h t b inv hb w.
           to_code out =
             Inr ([new_switch out, register_component out, connect_a_pin a]
                  @ (case map_of out CONF_PIN_B of None \<Rightarrow> [] | Some p \<Rightarrow> [connect_b_pin p])
                  @ (case map_of out CONF_BRIDGE_ENABLE_PIN of
                       None \<Rightarrow> [] | Some p \<Rightarrow> [connect_enable_pin p])
                  @ [set_energise_duration_ms d, set_dc_latch_redo_count c,
                     set_dc_latch_redo_interval i, set_energise_power_percent e,
                     set_hold_power_percent h, set_solenoid_type t, set_brake b,
                     set_inverted inv, set_half_bridge hb]
                  @ (case map_of out CONF_INTERLOCK of
                       Some (VList its) \<Rightarrow> [set_interlock its, set_interlock_wait_time w]
                     | _ \<Rightarrow> []))"
proof -
  from validated_settings [OF keeps ok] obtain a d c i e h t b inv hb w where
    s: "map_of out CONF_PIN_A = Some a"
       "map_of out CONF_ENERGISE_DURATION_MS = Some d"
       "map_of out CONF_DC_LATCH_REDO_COUNT = Some c"
       "map_of out CONF_DC_LATCH_REDO_INTERVAL_MS = Some i"
       "map_of out CONF_ENERGISE_POWER_PERCENT = Some e"
       "map_of out CONF_HOLD_POWER_PERCENT = Some h"
       "map_of out CONF_SOLENOID_TYPE = Some t"
       "map_of out CONF_BRAKE_IS_HIGH = Some b"
       "map_of out CONF_INVERTED = Some inv"
       "map_of out CONF_USING_HALF_BRIDGE = Some hb"
       "map_of out CONF_INTERLOCK_WAIT_TIME = Some w"
    by blast
  from validated_optionals [OF keeps ok] have
    l: "map_of out CONF_INTERLOCK = None \<or> (\<exists>its. map_of out CONF_INTERLOCK = Some (VList its))"
    by blast
  have "to_code out =
             Inr ([new_switch out, register_component out, connect_a_pin a]
                  @ (case map_of out CONF_PIN_B of None \<Rightarrow> [] | Some p \<Rightarrow> [connect_b_pin p])
                  @ (case map_of out CONF_BRIDGE_ENABLE_PIN of
                       None \<Rightarrow> [] | Some p \<Rightarrow> [connect_enable_pin p])
                  @ [set_energise_duration_ms d, set_dc_latch_redo_count c,
                     set_dc_latch_redo_interval i, set_energise_power_percent e,
                     set_hold_power_percent h, set_solenoid_type t, set_brake b,
                     set_inverted inv, set_half_bridge hb]
                  @ (case map_of out CONF_INTERLOCK of
                       Some (VList its) \<Rightarrow> [set_interlock its, set_interlock_wait_time w]
                     | _ \<Rightarrow> []))"
    using s l
    by (auto simp: to_code_def add_item_def getitem_def contains_def iterate_def get_variable_def
        map_get_variable split: option.splits)
  then show ?thesis by blast
qed

subsection \<open>The driver over time\<close>
















section \<open>Evaluation of the examples\<close>

lemmas validator_defs =
  cv_use_id_def cv_declare_id_def cv_int_range_def cv_int_def cv_Range_def cv_percentage_def
  cv_boolean_def cv_enum_def cv_positive_time_period_milliseconds_def cv_ensure_list_def
  upper_def upper_char_def SOLENOID_TYPE_OPTIONS_def

lemmas pipeline_defs =
  CONFIG_SCHEMA_def Schema_def solenoid_schema_def extend_def keys_of_def solenoid_options_def
  input_of_def validate_dc_latching_solenoid_def validate_pin_b_and_half_bridge_combo_def
  getitem_def contains_def py_eq_def keeps_options_def
  example_switch_schema_def example_component_schema_def

lemma keeps_example: "keeps_options example_component_schema"
  by (simp add: pipeline_defs)

lemma dc_latching_config_accepted:
  "CONFIG_SCHEMA example_switch_schema example_component_schema dc_latching_config
     = Inr dc_latching_validated"
  by (simp add: dc_latching_config_def dc_latching_validated_def pipeline_defs validator_defs)

lemma dc_latching_half_bridge_config_rejected:
  "CONFIG_SCHEMA example_switch_schema example_component_schema dc_latching_half_bridge_config
     = Inl (Invalid ''DC Latching Solenoid can't use a half-bridge as it requires a full h-bridge in order to reverse pulse polarity.'')"
  by (simp add: dc_latching_half_bridge_config_def pipeline_defs validator_defs)

lemma ac_half_bridge_config_accepted:
  "CONFIG_SCHEMA example_switch_schema example_component_schema ac_half_bridge_config
     = Inr ac_half_bridge_validated"
  by (simp add: ac_half_bridge_config_def ac_half_bridge_validated_def pipeline_defs validator_defs)

lemma dc_interlocked_config_accepted:
  "CONFIG_SCHEMA example_switch_schema example_component_schema dc_interlocked_config
     = Inr dc_interlocked_validated"
  by (simp add: dc_interlocked_config_def dc_interlocked_validated_def pipeline_defs validator_defs)

lemma dc_interlocked_config_schema:
  "Schema (solenoid_schema example_switch_schema example_component_schema) dc_interlocked_config
     = Inr dc_interlocked_validated"
  using dc_interlocked_config_accepted by (simp add: CONFIG_SCHEMA_Inr)

section \<open>The claims\<close>

text \<open>
  C1. A configuration whose solenoid type is DC_LATCHING is refused with \<open>Invalid\<close> when it
  uses a half-bridge or has no \<open>pin_b\<close>, so that no switch is built from it; and the DC
  latching check lets a DC_LATCHING configuration pass only when \<open>pin_b\<close> is there and the
  half-bridge is not used.
\<close>

theorem dc_latching_requires_full_bridge:
  "(keeps_options COMPONENT_SCHEMA
      \<and> map_of config CONF_SOLENOID_TYPE = Some t \<and> str_of t = Some s \<and> upper s = ''DC_LATCHING''
      \<and> (map_of config CONF_USING_HALF_BRIDGE = Some (VBool True) \<or> \<not> contains config CONF_PIN_B)
    \<longrightarrow> (\<exists>msg. CONFIG_SCHEMA switch_schema COMPONENT_SCHEMA config = Inl (Invalid msg)))
   \<and> (map_of c CONF_SOLENOID_TYPE = Some t' \<and> py_eq t' (VStr ''DC_LATCHING'')
      \<and> validate_dc_latching_solenoid c = Inr c'
    \<longrightarrow> contains c CONF_PIN_B
        \<and> (\<exists>hb. map_of c CONF_USING_HALF_BRIDGE = Some hb \<and> \<not> py_eq hb (VBool True)))"
proof (intro conjI impI)
  assume "keeps_options COMPONENT_SCHEMA
      \<and> map_of config CONF_SOLENOID_TYPE = Some t \<and> str_of t = Some s \<and> upper s = ''DC_LATCHING''
      \<and> (map_of config CONF_USING_HALF_BRIDGE = Some (VBool True) \<or> \<not> contains config CONF_PIN_B)"
  then show "\<exists>msg. CONFIG_SCHEMA switch_schema COMPONENT_SCHEMA config = Inl (Invalid msg)"
    using dc_latching_rejected by blast
next
  assume a: "map_of c CONF_SOLENOID_TYPE = Some t' \<and> py_eq t' (VStr ''DC_LATCHING'')
      \<and> validate_dc_latching_solenoid c = Inr c'"
  then show "contains c CONF_PIN_B"
    using dc_latching_check_passes by blast
  from a show "\<exists>hb. map_of c CONF_USING_HALF_BRIDGE = Some hb \<and> \<not> py_eq hb (VBool True)"
    using dc_latching_check_passes by blast
qed

theorem dc_latching_requires_full_bridge_witness:
  "keeps_options example_component_schema
   \<and> map_of dc_latching_half_bridge_config CONF_SOLENOID_TYPE = Some (VStr ''DC_LATCHING'')
   \<and> str_of (VStr ''DC_LATCHING'') = Some ''DC_LATCHING''
   \<and> upper ''DC_LATCHING'' = ''DC_LATCHING''
   \<and> map_of dc_latching_half_bridge_config CONF_USING_HALF_BRIDGE = Some (VBool True)
   \<and> (\<exists>msg. CONFIG_SCHEMA example_switch_schema example_component_schema
               dc_latching_half_bridge_config = Inl (Invalid msg))
   \<and> map_of dc_latching_validated CONF_SOLENOID_TYPE
        = Some (VEnum ''DC_LATCHING'' SOLENOID_TYPE_DC_LATCHING)
   \<and> py_eq (VEnum ''DC_LATCHING'' SOLENOID_TYPE_DC_LATCHING) (VStr ''DC_LATCHING'')
   \<and> validate_dc_latching_solenoid dc_latching_validated = Inr dc_latching_validated
   \<and> contains dc_latching_validated CONF_PIN_B
   \<and> map_of dc_latching_validated CONF_USING_HALF_BRIDGE = Some (VBool False)
   \<and> \<not> py_eq (VBool False) (VBool True)"
  using dc_latching_requires_full_bridge
    [of example_component_schema dc_latching_half_bridge_config "VStr ''DC_LATCHING''"
        "''DC_LATCHING''" example_switch_schema dc_latching_validated
        "VEnum ''DC_LATCHING'' SOLENOID_TYPE_DC_LATCHING" dc_latching_validated]
  by (simp add: dc_latching_half_bridge_config_def dc_latching_validated_def
      pipeline_defs validator_defs)

text \<open>
  C2. A configuration that the whole validation accepts has exactly one of the two: the
  half-bridge in use, or \<open>pin_b\<close>. A configuration with both, or with neither, is refused
  with \<open>Invalid\<close>.
\<close>

theorem pin_b_xor_half_bridge:
  "keeps_options COMPONENT_SCHEMA \<longrightarrow>
     (CONFIG_SCHEMA switch_schema COMPONENT_SCHEMA config = Inr out \<longrightarrow>
        (map_of out CONF_USING_HALF_BRIDGE = Some (VBool True)) \<noteq> contains out CONF_PIN_B)
     \<and> ((map_of config' CONF_USING_HALF_BRIDGE = Some (VBool True)) = contains config' CONF_PIN_B \<longrightarrow>
        (\<exists>msg. CONFIG_SCHEMA switch_schema COMPONENT_SCHEMA config' = Inl (Invalid msg)))"
  using combo_accepted combo_rejected by blast

theorem pin_b_xor_half_bridge_witness:
  "keeps_options example_component_schema
   \<and> CONFIG_SCHEMA example_switch_schema example_component_schema dc_latching_config
       = Inr dc_latching_validated
   \<and> map_of dc_latching_validated CONF_USING_HALF_BRIDGE \<noteq> Some (VBool True)
   \<and> contains dc_latching_validated CONF_PIN_B
   \<and> map_of dc_latching_half_bridge_config CONF_USING_HALF_BRIDGE = Some (VBool True)
   \<and> contains dc_latching_half_bridge_config CONF_PIN_B
   \<and> (\<exists>msg. CONFIG_SCHEMA example_switch_schema example_component_schema
               dc_latching_half_bridge_config = Inl (Invalid msg))"
  using pin_b_xor_half_bridge
    [of example_component_schema example_switch_schema dc_latching_config dc_latching_validated
        dc_latching_half_bridge_config]
    keeps_example dc_latching_config_accepted
  by (simp add: dc_latching_half_bridge_config_def dc_latching_validated_def contains_def)




text \<open>
  C4. \<open>energise_duration_ms\<close> is accepted if and only if it is an integer from 10 to 3000:
  a configuration without it, or with any other value for it, is refused with \<open>Invalid\<close>,
  and in an accepted configuration it can be set to any integer of that range.
\<close>

theorem energise_duration_ms_range:
  "keeps_options COMPONENT_SCHEMA \<longrightarrow>
     ((\<forall>n. map_of config CONF_ENERGISE_DURATION_MS = Some (VInt n) \<longrightarrow> n < 10 \<or> 3000 < n) \<longrightarrow>
        (\<exists>msg. CONFIG_SCHEMA switch_schema COMPONENT_SCHEMA config = Inl (Invalid msg)))
     \<and> (CONFIG_SCHEMA switch_schema COMPONENT_SCHEMA config' = Inr out \<and> 10 \<le> n' \<and> n' \<le> 3000 \<longrightarrow>
        (\<exists>out'. CONFIG_SCHEMA switch_schema COMPONENT_SCHEMA
                  (AList.update CONF_ENERGISE_DURATION_MS (VInt n') config') = Inr out'))"
proof (intro impI conjI)
  assume keeps: "keeps_options COMPONENT_SCHEMA"
  {
    assume bad: "\<forall>n. map_of config CONF_ENERGISE_DURATION_MS = Some (VInt n) \<longrightarrow> n < 10 \<or> 3000 < n"
    show "\<exists>msg. CONFIG_SCHEMA switch_schema COMPONENT_SCHEMA config = Inl (Invalid msg)"
    proof (cases "map_of config CONF_ENERGISE_DURATION_MS")
      case None
      then have "case input_of (Required CONF_ENERGISE_DURATION_MS) config of
                   None \<Rightarrow> is_required (Required CONF_ENERGISE_DURATION_MS)
                 | Some x \<Rightarrow> \<forall>y. cv_int_range 10 3000 x \<noteq> Inr y"
        by (simp add: input_of_def)
      from option_rejected [OF keeps energise_duration_ms_option this] show ?thesis .
    next
      case (Some x)
      from bad Some have "\<forall>n. x = VInt n \<longrightarrow> n < 10 \<or> 3000 < n" by simp
      from int_option_rejected [OF keeps energise_duration_ms_option _ this] Some
      show ?thesis by simp
    qed
  }
  {
    assume "CONFIG_SCHEMA switch_schema COMPONENT_SCHEMA config' = Inr out \<and> 10 \<le> n' \<and> n' \<le> 3000"
    then show "\<exists>out'. CONFIG_SCHEMA switch_schema COMPONENT_SCHEMA
                  (AList.update CONF_ENERGISE_DURATION_MS (VInt n') config') = Inr out'"
      using int_option_update [OF keeps _ energise_duration_ms_option] by simp
  }
qed

theorem energise_duration_ms_range_witness:
  "keeps_options example_component_schema
   \<and> map_of (AList.update CONF_ENERGISE_DURATION_MS (VInt 5) dc_latching_config)
        CONF_ENERGISE_DURATION_MS = Some (VInt 5)
   \<and> (5 :: int) < 10
   \<and> (\<exists>msg. CONFIG_SCHEMA example_switch_schema example_component_schema
        (AList.update CONF_ENERGISE_DURATION_MS (VInt 5) dc_latching_config) = Inl (Invalid msg))
   \<and> CONFIG_SCHEMA example_switch_schema example_component_schema dc_latching_config
        = Inr dc_latching_validated
   \<and> (10 :: int) \<le> 3000
   \<and> (\<exists>out'. CONFIG_SCHEMA example_switch_schema example_component_schema
        (AList.update CONF_ENERGISE_DURATION_MS (VInt 3000) dc_latching_config) = Inr out')"
  using energise_duration_ms_range
    [of example_component_schema
        "AList.update CONF_ENERGISE_DURATION_MS (VInt 5) dc_latching_config"
        example_switch_schema dc_latching_config dc_latching_validated 3000]
    keeps_example dc_latching_config_accepted
  by (simp add: dc_latching_config_def)

text \<open>
  C5. \<open>dc_latch_redo_count\<close> is accepted if and only if it is an integer from 1 to 5, and
  \<open>dc_latch_redo_interval_ms\<close> if and only if it is an integer from 500 to 3000: a
  configuration with any other value for one of them is refused with \<open>Invalid\<close>, and in an
  accepted configuration each can be set to any integer of its range.
\<close>

theorem dc_latch_redo_ranges:
  "keeps_options COMPONENT_SCHEMA \<longrightarrow>
     (map_of config CONF_DC_LATCH_REDO_COUNT = Some x
        \<and> (\<forall>n. x = VInt n \<longrightarrow> n < 1 \<or> 5 < n) \<longrightarrow>
        (\<exists>msg. CONFIG_SCHEMA switch_schema COMPONENT_SCHEMA config = Inl (Invalid msg)))
     \<and> (map_of config CONF_DC_LATCH_REDO_INTERVAL_MS = Some x'
        \<and> (\<forall>n. x' = VInt n \<longrightarrow> n < 500 \<or> 3000 < n) \<longrightarrow>
        (\<exists>msg. CONFIG_SCHEMA switch_schema COMPONENT_SCHEMA config = Inl (Invalid msg)))
     \<and> (CONFIG_SCHEMA switch_schema COMPONENT_SCHEMA config' = Inr out \<and> 1 \<le> cnt \<and> cnt \<le> 5 \<longrightarrow>
        (\<exists>out'. CONFIG_SCHEMA switch_schema COMPONENT_SCHEMA
                  (AList.update CONF_DC_LATCH_REDO_COUNT (VInt cnt) config') = Inr out'))
     \<and> (CONFIG_SCHEMA switch_schema COMPONENT_SCHEMA config' = Inr out \<and> 500 \<le> ival \<and> ival \<le> 3000 \<longrightarrow>
        (\<exists>out'. CONFIG_SCHEMA switch_schema COMPONENT_SCHEMA
                  (AList.update CONF_DC_LATCH_REDO_INTERVAL_MS (VInt ival) config') = Inr out'))"
proof (intro impI conjI)
  assume keeps: "keeps_options COMPONENT_SCHEMA"
  {
    assume "map_of config CONF_DC_LATCH_REDO_COUNT = Some x
        \<and> (\<forall>n. x = VInt n \<longrightarrow> n < 1 \<or> 5 < n)"
    then show "\<exists>msg. CONFIG_SCHEMA switch_schema COMPONENT_SCHEMA config = Inl (Invalid msg)"
      using int_option_rejected [OF keeps dc_latch_redo_count_option] by simp
  }
  {
    assume "map_of config CONF_DC_LATCH_REDO_INTERVAL_MS = Some x'
        \<and> (\<forall>n. x' = VInt n \<longrightarrow> n < 500 \<or> 3000 < n)"
    then show "\<exists>msg. CONFIG_SCHEMA switch_schema COMPONENT_SCHEMA config = Inl (Invalid msg)"
      using int_option_rejected [OF keeps dc_latch_redo_interval_ms_option] by simp
  }
  {
    assume "CONFIG_SCHEMA switch_schema COMPONENT_SCHEMA config' = Inr out \<and> 1 \<le> cnt \<and> cnt \<le> 5"
    then show "\<exists>out'. CONFIG_SCHEMA switch_schema COMPONENT_SCHEMA
                  (AList.update CONF_DC_LATCH_REDO_COUNT (VInt cnt) config') = Inr out'"
      using int_option_update [OF keeps _ dc_latch_redo_count_option] by simp
  }
  {
    assume "CONFIG_SCHEMA switch_schema COMPONENT_SCHEMA config' = Inr out \<and> 500 \<le> ival \<and> ival \<le> 3000"
    then show "\<exists>out'. CONFIG_SCHEMA switch_schema COMPONENT_SCHEMA
                  (AList.update CONF_DC_LATCH_REDO_INTERVAL_MS (VInt ival) config') = Inr out'"
      using int_option_update [OF keeps _ dc_latch_redo_interval_ms_option] by simp
  }
qed

theorem dc_latch_redo_ranges_witness:
  "keeps_options example_component_schema
   \<and> map_of [(CONF_DC_LATCH_REDO_COUNT, VInt 6), (CONF_DC_LATCH_REDO_INTERVAL_MS, VInt 6)]
        CONF_DC_LATCH_REDO_COUNT = Some (VInt 6)
   \<and> (5 :: int) < 6
   \<and> map_of [(CONF_DC_LATCH_REDO_COUNT, VInt 6), (CONF_DC_LATCH_REDO_INTERVAL_MS, VInt 6)]
        CONF_DC_LATCH_REDO_INTERVAL_MS = Some (VInt 6)
   \<and> (6 :: int) < 500
   \<and> (\<exists>msg. CONFIG_SCHEMA example_switch_schema example_component_schema
        [(CONF_DC_LATCH_REDO_COUNT, VInt 6), (CONF_DC_LATCH_REDO_INTERVAL_MS, VInt 6)]
          = Inl (Invalid msg))
   \<and> CONFIG_SCHEMA example_switch_schema example_component_schema dc_latching_config
        = Inr dc_latching_validated
   \<and> (1 :: int) \<le> 5
   \<and> (\<exists>out'. CONFIG_SCHEMA example_switch_schema example_component_schema
        (AList.update CONF_DC_LATCH_REDO_COUNT (VInt 5) dc_latching_config) = Inr out')
   \<and> (500 :: int) \<le> 3000
   \<and> (\<exists>out'. CONFIG_SCHEMA example_switch_schema example_component_schema
        (AList.update CONF_DC_LATCH_REDO_INTERVAL_MS (VInt 3000) dc_latching_config) = Inr out')"
  using dc_latch_redo_ranges
    [of example_component_schema
        "[(CONF_DC_LATCH_REDO_COUNT, VInt 6), (CONF_DC_LATCH_REDO_INTERVAL_MS, VInt 6)]"
        "VInt 6" example_switch_schema "VInt 6" dc_latching_config dc_latching_validated 5 3000]
    keeps_example dc_latching_config_accepted
  by simp



text \<open>
  C7. The schema makes \<open>pin_a\<close> mandatory and an identifier of a float output: a
  configuration without it is refused, and the validated one has it as such an
  identifier. \<open>pin_b\<close> and \<open>h_bridge_enable_pin\<close> are optional and identifiers of binary
  outputs: when present they are validated as such, the schema accepts a configuration
  again once \<open>pin_b\<close> is taken out, and the whole validation accepts it again once
  \<open>h_bridge_enable_pin\<close> is taken out.
\<close>

theorem pins_of_the_schema:
  "keeps_options COMPONENT_SCHEMA \<longrightarrow>
     (map_of config CONF_PIN_A = None \<longrightarrow>
        (\<exists>msg. CONFIG_SCHEMA switch_schema COMPONENT_SCHEMA config = Inl (Invalid msg)))
     \<and> (CONFIG_SCHEMA switch_schema COMPONENT_SCHEMA config' = Inr out \<longrightarrow>
          (\<exists>n. map_of out CONF_PIN_A = Some (VId FloatOutput n False))
          \<and> (case map_of out CONF_PIN_B of
                None \<Rightarrow> map_of config' CONF_PIN_B = None
              | Some i \<Rightarrow> \<exists>n. i = VId BinaryOutput n False)
          \<and> (case map_of out CONF_BRIDGE_ENABLE_PIN of
                None \<Rightarrow> map_of config' CONF_BRIDGE_ENABLE_PIN = None
              | Some i \<Rightarrow> \<exists>n. i = VId BinaryOutput n False)
          \<and> (\<exists>out'. CONFIG_SCHEMA switch_schema COMPONENT_SCHEMA
                      (AList.delete CONF_BRIDGE_ENABLE_PIN config') = Inr out'))
     \<and> (Schema (solenoid_schema switch_schema COMPONENT_SCHEMA) config' = Inr out \<longrightarrow>
          (\<exists>out'. Schema (solenoid_schema switch_schema COMPONENT_SCHEMA)
                    (AList.delete CONF_PIN_B config') = Inr out'))"
proof (intro impI conjI)
  assume keeps: "keeps_options COMPONENT_SCHEMA"
  {
    assume "map_of config CONF_PIN_A = None"
    from pin_a_missing [OF keeps this]
    show "\<exists>msg. CONFIG_SCHEMA switch_schema COMPONENT_SCHEMA config = Inl (Invalid msg)" .
  }
  {
    assume ok: "CONFIG_SCHEMA switch_schema COMPONENT_SCHEMA config' = Inr out"
    note t = pins_typed [OF keeps ok]
    from t show "\<exists>n. map_of out CONF_PIN_A = Some (VId FloatOutput n False)" by blast
    from t show "case map_of out CONF_PIN_B of
                None \<Rightarrow> map_of config' CONF_PIN_B = None
              | Some i \<Rightarrow> \<exists>n. i = VId BinaryOutput n False" by blast
    from t show "case map_of out CONF_BRIDGE_ENABLE_PIN of
                None \<Rightarrow> map_of config' CONF_BRIDGE_ENABLE_PIN = None
              | Some i \<Rightarrow> \<exists>n. i = VId BinaryOutput n False" by blast
    from CONFIG_SCHEMA_delete_option [OF keeps ok enable_pin_option]
    show "\<exists>out'. CONFIG_SCHEMA switch_schema COMPONENT_SCHEMA
                      (AList.delete CONF_BRIDGE_ENABLE_PIN config') = Inr out'" by simp
  }
  {
    assume "Schema (solenoid_schema switch_schema COMPONENT_SCHEMA) config' = Inr out"
    from Schema_delete_option [OF keeps this pin_b_option]
    show "\<exists>out'. Schema (solenoid_schema switch_schema COMPONENT_SCHEMA)
                    (AList.delete CONF_PIN_B config') = Inr out'" by blast
  }
qed

theorem pins_of_the_schema_witness:
  "keeps_options example_component_schema
   \<and> map_of ([] :: config) CONF_PIN_A = None
   \<and> (\<exists>msg. CONFIG_SCHEMA example_switch_schema example_component_schema [] = Inl (Invalid msg))
   \<and> CONFIG_SCHEMA example_switch_schema example_component_schema dc_interlocked_config
        = Inr dc_interlocked_validated
   \<and> map_of dc_interlocked_validated CONF_PIN_A
        = Some (VId FloatOutput (Some ''bridge_a'') False)
   \<and> map_of dc_interlocked_validated CONF_PIN_B
        = Some (VId BinaryOutput (Some ''bridge_b'') False)
   \<and> map_of dc_interlocked_validated CONF_BRIDGE_ENABLE_PIN
        = Some (VId BinaryOutput (Some ''bridge_en'') False)
   \<and> (\<exists>out'. CONFIG_SCHEMA example_switch_schema example_component_schema
                (AList.delete CONF_BRIDGE_ENABLE_PIN dc_interlocked_config) = Inr out')
   \<and> Schema (solenoid_schema example_switch_schema example_component_schema)
        dc_interlocked_config = Inr dc_interlocked_validated
   \<and> (\<exists>out'. Schema (solenoid_schema example_switch_schema example_component_schema)
                (AList.delete CONF_PIN_B dc_interlocked_config) = Inr out')"
  using pins_of_the_schema
    [of example_component_schema "[]" example_switch_schema dc_interlocked_config
        dc_interlocked_validated]
    keeps_example dc_interlocked_config_accepted dc_interlocked_config_schema
  by (simp add: dc_interlocked_validated_def)

text \<open>
  C8. \<open>solenoid_type\<close> is required, and it is accepted if and only if its text, put in upper
  case, is one of the three names DC_LATCHING, AC and DC: a configuration without it or
  with any other value is refused with \<open>Invalid\<close>; the validated value is one of the three
  members of the enumeration; the schema accepts each of the three names in a
  configuration that it accepted, and so does the whole validation for AC and DC (for
  DC_LATCHING the pins decide, see C1).
\<close>

theorem solenoid_type_variants:
  "keeps_options COMPONENT_SCHEMA \<longrightarrow>
     (\<not> (\<exists>t s. map_of config CONF_SOLENOID_TYPE = Some t \<and> str_of t = Some s
                \<and> upper s \<in> {''DC_LATCHING'', ''AC'', ''DC''}) \<longrightarrow>
        (\<exists>msg. CONFIG_SCHEMA switch_schema COMPONENT_SCHEMA config = Inl (Invalid msg)))
     \<and> (Schema (solenoid_schema switch_schema COMPONENT_SCHEMA) config' = Inr out \<longrightarrow>
          map_of out CONF_SOLENOID_TYPE
            \<in> {Some (VEnum ''DC_LATCHING'' SOLENOID_TYPE_DC_LATCHING),
               Some (VEnum ''AC'' SOLENOID_TYPE_AC),
               Some (VEnum ''DC'' SOLENOID_TYPE_DC)})
     \<and> (Schema (solenoid_schema switch_schema COMPONENT_SCHEMA) config' = Inr out
          \<and> upper s' \<in> {''DC_LATCHING'', ''AC'', ''DC''} \<longrightarrow>
          (\<exists>out'. Schema (solenoid_schema switch_schema COMPONENT_SCHEMA)
                    (AList.update CONF_SOLENOID_TYPE (VStr s') config') = Inr out'))
     \<and> (CONFIG_SCHEMA switch_schema COMPONENT_SCHEMA cfg = Inr validated
          \<and> upper txt \<in> {''AC'', ''DC''} \<longrightarrow>
          (\<exists>out'. CONFIG_SCHEMA switch_schema COMPONENT_SCHEMA
                    (AList.update CONF_SOLENOID_TYPE (VStr txt) cfg) = Inr out'))"
proof (intro impI conjI)
  assume keeps: "keeps_options COMPONENT_SCHEMA"
  {
    assume "\<not> (\<exists>t s. map_of config CONF_SOLENOID_TYPE = Some t \<and> str_of t = Some s
                \<and> upper s \<in> {''DC_LATCHING'', ''AC'', ''DC''})"
    from solenoid_type_rejected [OF keeps this]
    show "\<exists>msg. CONFIG_SCHEMA switch_schema COMPONENT_SCHEMA config = Inl (Invalid msg)" .
  }
  {
    assume "Schema (solenoid_schema switch_schema COMPONENT_SCHEMA) config' = Inr out"
    from solenoid_type_validated [OF keeps this]
    show "map_of out CONF_SOLENOID_TYPE
            \<in> {Some (VEnum ''DC_LATCHING'' SOLENOID_TYPE_DC_LATCHING),
               Some (VEnum ''AC'' SOLENOID_TYPE_AC),
               Some (VEnum ''DC'' SOLENOID_TYPE_DC)}" .
  }
  {
    assume "Schema (solenoid_schema switch_schema COMPONENT_SCHEMA) config' = Inr out
          \<and> upper s' \<in> {''DC_LATCHING'', ''AC'', ''DC''}"
    then show "\<exists>out'. Schema (solenoid_schema switch_schema COMPONENT_SCHEMA)
                    (AList.update CONF_SOLENOID_TYPE (VStr s') config') = Inr out'"
      using solenoid_type_update [OF keeps] by blast
  }
  {
    assume "CONFIG_SCHEMA switch_schema COMPONENT_SCHEMA cfg = Inr validated
          \<and> upper txt \<in> {''AC'', ''DC''}"
    then show "\<exists>out'. CONFIG_SCHEMA switch_schema COMPONENT_SCHEMA
                    (AList.update CONF_SOLENOID_TYPE (VStr txt) cfg) = Inr out'"
      using solenoid_type_update_accepted [OF keeps] by blast
  }
qed

theorem solenoid_type_variants_witness:
  "keeps_options example_component_schema
   \<and> map_of (AList.update CONF_SOLENOID_TYPE (VStr ''PNEUMATIC'') dc_interlocked_config)
        CONF_SOLENOID_TYPE = Some (VStr ''PNEUMATIC'')
   \<and> upper ''PNEUMATIC'' \<notin> {''DC_LATCHING'', ''AC'', ''DC''}
   \<and> (\<exists>msg. CONFIG_SCHEMA example_switch_schema example_component_schema
        (AList.update CONF_SOLENOID_TYPE (VStr ''PNEUMATIC'') dc_interlocked_config)
          = Inl (Invalid msg))
   \<and> Schema (solenoid_schema example_switch_schema example_component_schema)
        dc_interlocked_config = Inr dc_interlocked_validated
   \<and> map_of dc_interlocked_validated CONF_SOLENOID_TYPE = Some (VEnum ''DC'' SOLENOID_TYPE_DC)
   \<and> upper ''dc_latching'' = ''DC_LATCHING''
   \<and> (\<exists>out'. Schema (solenoid_schema example_switch_schema example_component_schema)
        (AList.update CONF_SOLENOID_TYPE (VStr ''dc_latching'') dc_interlocked_config) = Inr out')
   \<and> CONFIG_SCHEMA example_switch_schema example_component_schema dc_interlocked_config
        = Inr dc_interlocked_validated
   \<and> upper ''ac'' = ''AC''
   \<and> (\<exists>out'. CONFIG_SCHEMA example_switch_schema example_component_schema
        (AList.update CONF_SOLENOID_TYPE (VStr ''ac'') dc_interlocked_config) = Inr out')"
  using solenoid_type_variants
    [of example_component_schema
        "AList.update CONF_SOLENOID_TYPE (VStr ''PNEUMATIC'') dc_interlocked_config"
        example_switch_schema dc_interlocked_config dc_interlocked_validated
        "''dc_latching''" dc_interlocked_config dc_interlocked_validated "''ac''"]
    keeps_example dc_interlocked_config_accepted dc_interlocked_config_schema
  by (simp add: dc_interlocked_validated_def update_conv' upper_def upper_char_def)

text \<open>
  C9. For an accepted configuration, code generation succeeds and calls
  \<open>set_interlock_wait_time\<close> if and only if the configuration has the \<open>interlock\<close> option;
  a wait time given without an \<open>interlock\<close> list is accepted and never passed to the driver.
\<close>

theorem interlock_wait_time_needs_interlock:
  assumes keeps: "keeps_options COMPONENT_SCHEMA"
      and ok: "CONFIG_SCHEMA switch_schema COMPONENT_SCHEMA config = Inr out"
  shows "\<exists>code. to_code out = Inr code
           \<and> ((\<exists>w. set_interlock_wait_time w \<in> set code) \<longleftrightarrow> contains config CONF_INTERLOCK)
           \<and> (contains config CONF_INTERLOCK_WAIT_TIME \<and> \<not> contains config CONF_INTERLOCK
                \<longrightarrow> \<not> (\<exists>w. set_interlock_wait_time w \<in> set code))"
proof -
  from to_code_accepted [OF keeps ok] obtain a d c i e h t b inv hb w where
    code: "to_code out =
             Inr ([new_switch out, register_component out, connect_a_pin a]
                  @ (case map_of out CONF_PIN_B of None \<Rightarrow> [] | Some p \<Rightarrow> [connect_b_pin p])
                  @ (case map_of out CONF_BRIDGE_ENABLE_PIN of
                       None \<Rightarrow> [] | Some p \<Rightarrow> [connect_enable_pin p])
                  @ [set_energise_duration_ms d, set_dc_latch_redo_count c,
                     set_dc_latch_redo_interval i, set_energise_power_percent e,
                     set_hold_power_percent h, set_solenoid_type t, set_brake b,
                     set_inverted inv, set_half_bridge hb]
                  @ (case map_of out CONF_INTERLOCK of
                       Some (VList its) \<Rightarrow> [set_interlock its, set_interlock_wait_time w]
                     | _ \<Rightarrow> []))"
    by blast
  from validated_optionals [OF keeps ok] have
    l: "contains out CONF_INTERLOCK \<longleftrightarrow> contains config CONF_INTERLOCK"
       "map_of out CONF_INTERLOCK = None \<or> (\<exists>its. map_of out CONF_INTERLOCK = Some (VList its))"
    by blast+
  show ?thesis
    unfolding code using l
    by (auto simp: contains_def split: option.splits)
qed

theorem interlock_wait_time_needs_interlock_witness:
  "keeps_options example_component_schema
   \<and> CONFIG_SCHEMA example_switch_schema example_component_schema ac_half_bridge_config
        = Inr ac_half_bridge_validated
   \<and> contains ac_half_bridge_config CONF_INTERLOCK_WAIT_TIME
   \<and> \<not> contains ac_half_bridge_config CONF_INTERLOCK
   \<and> (\<exists>code. to_code ac_half_bridge_validated = Inr code
         \<and> \<not> (\<exists>w. set_interlock_wait_time w \<in> set code))
   \<and> CONFIG_SCHEMA example_switch_schema example_component_schema dc_interlocked_config
        = Inr dc_interlocked_validated
   \<and> contains dc_interlocked_config CONF_INTERLOCK
   \<and> (\<exists>code. to_code dc_interlocked_validated = Inr code
         \<and> (\<exists>w. set_interlock_wait_time w \<in> set code))"
  using interlock_wait_time_needs_interlock [OF keeps_example ac_half_bridge_config_accepted]
    interlock_wait_time_needs_interlock [OF keeps_example dc_interlocked_config_accepted]
    keeps_example ac_half_bridge_config_accepted dc_interlocked_config_accepted
  by (simp add: ac_half_bridge_config_def dc_interlocked_config_def contains_def)

text \<open>
  C10. For an accepted configuration, code generation succeeds and calls \<open>connect_a_pin\<close>
  exactly once, \<open>connect_b_pin\<close> if and only if the configuration has \<open>pin_b\<close>, and
  \<open>connect_enable_pin\<close> if and only if it has \<open>h_bridge_enable_pin\<close>; when the solenoid type
  is DC_LATCHING, \<open>connect_b_pin\<close> is called.
\<close>

theorem pins_connected:
  assumes keeps: "keeps_options COMPONENT_SCHEMA"
      and ok: "CONFIG_SCHEMA switch_schema COMPONENT_SCHEMA config = Inr out"
  shows "\<exists>code. to_code out = Inr code
           \<and> (\<exists>a. filter (\<lambda>s. \<exists>p. s = connect_a_pin p) code = [connect_a_pin a])
           \<and> ((\<exists>p. connect_b_pin p \<in> set code) \<longleftrightarrow> contains config CONF_PIN_B)
           \<and> ((\<exists>p. connect_enable_pin p \<in> set code) \<longleftrightarrow> contains config CONF_BRIDGE_ENABLE_PIN)
           \<and> (map_of out CONF_SOLENOID_TYPE = Some (VEnum ''DC_LATCHING'' SOLENOID_TYPE_DC_LATCHING)
                \<longrightarrow> (\<exists>p. connect_b_pin p \<in> set code))"
proof -
  from to_code_accepted [OF keeps ok] obtain a d c i e h t b inv hb w where
    code: "to_code out =
             Inr ([new_switch out, register_component out, connect_a_pin a]
                  @ (case map_of out CONF_PIN_B of None \<Rightarrow> [] | Some p \<Rightarrow> [connect_b_pin p])
                  @ (case map_of out CONF_BRIDGE_ENABLE_PIN of
                       None \<Rightarrow> [] | Some p \<Rightarrow> [connect_enable_pin p])
                  @ [set_energise_duration_ms d, set_dc_latch_redo_count c,
                     set_dc_latch_redo_interval i, set_energise_power_percent e,
                     set_hold_power_percent h, set_solenoid_type t, set_brake b,
                     set_inverted inv, set_half_bridge hb]
                  @ (case map_of out CONF_INTERLOCK of
                       Some (VList its) \<Rightarrow> [set_interlock its, set_interlock_wait_time w]
                     | _ \<Rightarrow> []))"
    by blast
  from validated_optionals [OF keeps ok] have
    l: "contains out CONF_PIN_B \<longleftrightarrow> contains config CONF_PIN_B"
       "contains out CONF_BRIDGE_ENABLE_PIN \<longleftrightarrow> contains config CONF_BRIDGE_ENABLE_PIN"
       "map_of out CONF_INTERLOCK = None \<or> (\<exists>its. map_of out CONF_INTERLOCK = Some (VList its))"
    by blast+
  from ok have dc: "validate_dc_latching_solenoid out = Inr out"
    by (simp add: CONFIG_SCHEMA_Inr)
  have latch: "map_of out CONF_SOLENOID_TYPE = Some (VEnum ''DC_LATCHING'' SOLENOID_TYPE_DC_LATCHING)
                 \<Longrightarrow> contains out CONF_PIN_B"
    using dc_latching_check_passes [OF _ _ dc] by simp
  show ?thesis
    unfolding code using l latch
    by (auto simp: contains_def split: option.splits)
qed

theorem pins_connected_witness:
  "keeps_options example_component_schema
   \<and> CONFIG_SCHEMA example_switch_schema example_component_schema dc_latching_config
        = Inr dc_latching_validated
   \<and> contains dc_latching_config CONF_PIN_B
   \<and> \<not> contains dc_latching_config CONF_BRIDGE_ENABLE_PIN
   \<and> map_of dc_latching_validated CONF_SOLENOID_TYPE
        = Some (VEnum ''DC_LATCHING'' SOLENOID_TYPE_DC_LATCHING)
   \<and> (\<exists>code. to_code dc_latching_validated = Inr code
         \<and> (\<exists>a. filter (\<lambda>s. \<exists>p. s = connect_a_pin p) code = [connect_a_pin a])
         \<and> (\<exists>p. connect_b_pin p \<in> set code)
         \<and> \<not> (\<exists>p. connect_enable_pin p \<in> set code))"
proof -
  have t: "map_of dc_latching_validated CONF_SOLENOID_TYPE
             = Some (VEnum ''DC_LATCHING'' SOLENOID_TYPE_DC_LATCHING)"
    by (simp add: dc_latching_validated_def)
  have c: "contains dc_latching_config CONF_PIN_B"
          "\<not> contains dc_latching_config CONF_BRIDGE_ENABLE_PIN"
    by (simp_all add: dc_latching_config_def contains_def)
  from pins_connected [OF keeps_example dc_latching_config_accepted] t c
  have "\<exists>code. to_code dc_latching_validated = Inr code
         \<and> (\<exists>a. filter (\<lambda>s. \<exists>p. s = connect_a_pin p) code = [connect_a_pin a])
         \<and> (\<exists>p. connect_b_pin p \<in> set code)
         \<and> \<not> (\<exists>p. connect_enable_pin p \<in> set code)"
    by auto
  with keeps_example dc_latching_config_accepted t c show ?thesis by blast
qed

end
